theory Spec2Isabelle
  imports Main "HOL-Library.Word"
begin

unbundle bit_operations_syntax

section \<open>The environment of libcopyfile\<close>

text \<open>
  \<^verbatim>\<open>copyfile.c\<close> is a thin layer over the C library and the kernel: every decision it
  takes is a reaction to the return value and the \<^verbatim>\<open>errno\<close> of a call it made. The
  calls themselves are not part of the repository, so this section fixes a small
  model of them: a flat name space of inodes, a descriptor table, \<^verbatim>\<open>errno\<close>, and a
  record of every call made (the \<open>trace\<close>). What a call answers is first asked of
  the \<open>script\<close> of the world, a function of the calls made so far and of the call
  at hand: it can let the call run (\<open>Normal\<close>), make it fail with an error code of
  its choice (\<open>Fail\<close>), or cut a transfer short (\<open>Partial\<close>). Everything the code
  reacts to can therefore happen in the model, at any call.
\<close>

datatype errcode =
  EINVAL | ENOTSUP | ENOMEM | EEXIST | ENOENT | EACCES | EISDIR | EAGAIN | EFAULT
  | EBADF | EIO | EPERM | ERANGE | EOPNOTSUPP | EOTHER nat

text \<open>The file type bits of \<^verbatim>\<open>st_mode\<close> (\<^verbatim>\<open>st_mode & S_IFMT\<close>); \<open>S_IFOTHER\<close> stands for
  every other value, the zero of a cleared \<^verbatim>\<open>struct stat\<close> included.\<close>

datatype ftype = S_IFREG | S_IFDIR | S_IFLNK | S_IFOTHER

text \<open>\<^verbatim>\<open>struct stat\<close>: the type bits and the permission bits of \<^verbatim>\<open>st_mode\<close> are kept apart.\<close>

record stat =
  st_type :: ftype
  st_perm :: nat
  st_size :: nat
  st_blksize :: nat
  st_uid :: nat
  st_gid :: nat
  st_atime :: int
  st_mtime :: int
  st_flags :: nat

definition zero_stat :: stat where
  "zero_stat = \<lparr>st_type = S_IFOTHER, st_perm = 0, st_size = 0, st_blksize = 0, st_uid = 0,
     st_gid = 0, st_atime = 0, st_mtime = 0, st_flags = 0\<rparr>"

record inode =
  i_type :: ftype
  i_data :: "char list"
  i_perm :: nat
  i_uid :: nat
  i_gid :: nat
  i_atime :: int
  i_mtime :: int
  i_flags :: nat

text \<open>An open file description: the inode, the offset, and the access mode.\<close>

record ofd =
  o_ino :: nat
  o_off :: nat
  o_rd :: bool
  o_wr :: bool

datatype oflag = O_RDONLY | O_WRONLY | O_CREAT | O_EXCL | O_NOFOLLOW

datatype event =
  EvStat string
  | EvFstat int
  | EvFstatfs int
  | EvOpen string "oflag set" nat
  | EvMkdir string nat
  | EvClose int
  | EvRead int nat
  | EvWrite int "char list"
  | EvFtruncate int nat
  | EvUnlink string
  | EvRemove string
  | EvChmod string nat
  | EvFchmod int nat
  | EvFchflags int nat
  | EvFchown int nat nat
  | EvFutimes int int int
  | EvCalloc
  | EvMalloc nat
  | EvStrdup string

datatype outcome = Normal | Fail errcode | Partial nat

text \<open>What \<^verbatim>\<open>strtol(e, NULL, 0)\<close> makes of a string, by the C standard: no conversion
  (it returns 0), a converted value, or a value out of the range of \<^verbatim>\<open>long\<close> (it
  returns \<^verbatim>\<open>LONG_MAX\<close> or \<^verbatim>\<open>LONG_MIN\<close>, given here, and sets \<^verbatim>\<open>ERANGE\<close>).\<close>

datatype strtol_result = NoConversion | Converted int | OutOfRange int

record world =
  names :: "string \<Rightarrow> nat option"
  files :: "inode list"
  fdtab :: "ofd option list"
  errno :: "errcode option"
  trace :: "event list"
  script :: "event list \<Rightarrow> event \<Rightarrow> outcome"
  environ :: "string \<Rightarrow> string option"
  libc_strtol :: "string \<Rightarrow> strtol_result"
  strtol_einval :: bool
  iosize :: nat
  blksize :: nat
  maxpathlen :: nat
  stack_junk :: nat

text \<open>
  \<open>names\<close> are the directory entries (a path to an inode number), \<open>files\<close> the
  inodes (an inode number is an index), \<open>fdtab\<close> the descriptor table (a descriptor
  is an index). \<open>errno = None\<close> is \<^verbatim>\<open>errno == 0\<close>. \<open>environ\<close> is what \<^verbatim>\<open>getenv\<close> reads.
  \<open>strtol_einval\<close> says whether the C library sets \<^verbatim>\<open>EINVAL\<close> when \<^verbatim>\<open>strtol\<close> converts
  nothing (the BSD and macOS libraries do; the C standard leaves it open).
  \<open>iosize\<close> is \<^verbatim>\<open>f_iosize\<close> of \<^verbatim>\<open>fstatfs\<close>, \<open>blksize\<close> is \<^verbatim>\<open>st_blksize\<close>, \<open>maxpathlen\<close> is
  \<^verbatim>\<open>MAXPATHLEN\<close> of \<^verbatim>\<open>sys/param.h\<close>. \<open>stack_junk\<close> is what the permission bits of a
  \<^verbatim>\<open>struct stat\<close> on the stack read as when nothing has been written to it.
\<close>

definition logged :: "event \<Rightarrow> world \<Rightarrow> world" where
  "logged ev w = w\<lparr>trace := trace w @ [ev]\<rparr>"

definition consult :: "event \<Rightarrow> world \<Rightarrow> outcome \<times> world" where
  "consult ev w = (script w (trace w) ev, logged ev w)"

definition failing :: "errcode \<Rightarrow> world \<Rightarrow> world" where
  "failing e w = w\<lparr>errno := Some e\<rparr>"

definition fd_lookup :: "world \<Rightarrow> int \<Rightarrow> ofd option" where
  "fd_lookup w fd =
     (if 0 \<le> fd \<and> nat fd < length (fdtab w) then fdtab w ! nat fd else None)"

definition ino_lookup :: "world \<Rightarrow> nat \<Rightarrow> inode option" where
  "ino_lookup w i = (if i < length (files w) then Some (files w ! i) else None)"

definition path_lookup :: "world \<Rightarrow> string \<Rightarrow> (nat \<times> inode) option" where
  "path_lookup w p =
     (case names w p of
        None \<Rightarrow> None
      | Some i \<Rightarrow> (case ino_lookup w i of None \<Rightarrow> None | Some f \<Rightarrow> Some (i, f)))"

definition fd_file :: "world \<Rightarrow> int \<Rightarrow> (ofd \<times> inode) option" where
  "fd_file w fd =
     (case fd_lookup w fd of
        None \<Rightarrow> None
      | Some d \<Rightarrow> (case ino_lookup w (o_ino d) of None \<Rightarrow> None | Some f \<Rightarrow> Some (d, f)))"

definition stat_of :: "world \<Rightarrow> inode \<Rightarrow> stat" where
  "stat_of w f =
     \<lparr>st_type = i_type f, st_perm = i_perm f, st_size = length (i_data f),
      st_blksize = blksize w, st_uid = i_uid f, st_gid = i_gid f,
      st_atime = i_atime f, st_mtime = i_mtime f, st_flags = i_flags f\<rparr>"

text \<open>The lowest descriptor not in use, as POSIX has it.\<close>

fun first_free :: "ofd option list \<Rightarrow> nat" where
  "first_free [] = 0"
| "first_free (None # tab) = 0"
| "first_free (Some d # tab) = Suc (first_free tab)"

definition install_fd :: "ofd \<Rightarrow> world \<Rightarrow> int \<times> world" where
  "install_fd d w =
     (let k = first_free (fdtab w) in
      (int k,
       w\<lparr>fdtab := (if k < length (fdtab w) then (fdtab w)[k := Some d]
                    else fdtab w @ [Some d])\<rparr>))"

definition new_inode :: "ftype \<Rightarrow> nat \<Rightarrow> inode" where
  "new_inode t mode =
     \<lparr>i_type = t, i_data = [], i_perm = mode, i_uid = 0, i_gid = 0, i_atime = 0,
      i_mtime = 0, i_flags = 0\<rparr>"

definition update_inode :: "nat \<Rightarrow> (inode \<Rightarrow> inode) \<Rightarrow> world \<Rightarrow> world" where
  "update_inode i g w = w\<lparr>files := (files w)[i := g (files w ! i)]\<rparr>"

subsection \<open>The calls\<close>

text \<open>\<^verbatim>\<open>stat\<close> and \<^verbatim>\<open>fstat\<close> return the status and, on success, the filled structure.\<close>

definition sys_stat :: "string \<Rightarrow> world \<Rightarrow> (int \<times> stat option) \<times> world" where
  "sys_stat p w =
     (case consult (EvStat p) w of
        (Fail e, w1) \<Rightarrow> ((-1, None), failing e w1)
      | (_, w1) \<Rightarrow>
          (case path_lookup w1 p of
             None \<Rightarrow> ((-1, None), failing ENOENT w1)
           | Some (i, f) \<Rightarrow> ((0, Some (stat_of w1 f)), w1)))"

definition sys_fstat :: "int \<Rightarrow> world \<Rightarrow> (int \<times> stat option) \<times> world" where
  "sys_fstat fd w =
     (case consult (EvFstat fd) w of
        (Fail e, w1) \<Rightarrow> ((-1, None), failing e w1)
      | (_, w1) \<Rightarrow>
          (case fd_file w1 fd of
             None \<Rightarrow> ((-1, None), failing EBADF w1)
           | Some (d, f) \<Rightarrow> ((0, Some (stat_of w1 f)), w1)))"

text \<open>\<^verbatim>\<open>fstatfs\<close>: the status and \<^verbatim>\<open>f_iosize\<close>.\<close>

definition sys_fstatfs :: "int \<Rightarrow> world \<Rightarrow> (int \<times> nat) \<times> world" where
  "sys_fstatfs fd w =
     (case consult (EvFstatfs fd) w of
        (Fail e, w1) \<Rightarrow> ((-1, 0), failing e w1)
      | (_, w1) \<Rightarrow>
          (case fd_file w1 fd of
             None \<Rightarrow> ((-1, 0), failing EBADF w1)
           | Some (d, f) \<Rightarrow> ((0, iosize w1), w1)))"

text \<open>
  \<^verbatim>\<open>open\<close>: with \<^verbatim>\<open>O_CREAT | O_EXCL\<close> an existing name is \<^verbatim>\<open>EEXIST\<close>; a directory cannot
  be opened for writing (\<^verbatim>\<open>EISDIR\<close>); a missing name is created as an empty regular
  file when \<^verbatim>\<open>O_CREAT\<close> is given and is \<^verbatim>\<open>ENOENT\<close> otherwise. The offset starts at 0.
  Access rights are not computed: \<^verbatim>\<open>EACCES\<close> is an answer of the script. Symbolic
  links are not resolved, so \<^verbatim>\<open>O_NOFOLLOW\<close> changes nothing.
\<close>

definition sys_open :: "string \<Rightarrow> oflag set \<Rightarrow> nat \<Rightarrow> world \<Rightarrow> int \<times> world" where
  "sys_open p fl mode w =
     (case consult (EvOpen p fl mode) w of
        (Fail e, w1) \<Rightarrow> (-1, failing e w1)
      | (_, w1) \<Rightarrow>
          (case path_lookup w1 p of
             Some (i, f) \<Rightarrow>
               if O_CREAT \<in> fl \<and> O_EXCL \<in> fl then (-1, failing EEXIST w1)
               else if i_type f = S_IFDIR \<and> O_WRONLY \<in> fl then (-1, failing EISDIR w1)
               else install_fd \<lparr>o_ino = i, o_off = 0, o_rd = (O_WRONLY \<notin> fl),
                      o_wr = (O_WRONLY \<in> fl)\<rparr> w1
           | None \<Rightarrow>
               if O_CREAT \<in> fl then
                 install_fd \<lparr>o_ino = length (files w1), o_off = 0, o_rd = (O_WRONLY \<notin> fl),
                      o_wr = (O_WRONLY \<in> fl)\<rparr>
                   (w1\<lparr>names := (names w1)(p := Some (length (files w1))),
                       files := files w1 @ [new_inode S_IFREG mode]\<rparr>)
               else (-1, failing ENOENT w1)))"

definition sys_mkdir :: "string \<Rightarrow> nat \<Rightarrow> world \<Rightarrow> int \<times> world" where
  "sys_mkdir p mode w =
     (case consult (EvMkdir p mode) w of
        (Fail e, w1) \<Rightarrow> (-1, failing e w1)
      | (_, w1) \<Rightarrow>
          (case path_lookup w1 p of
             Some (i, f) \<Rightarrow> (-1, failing EEXIST w1)
           | None \<Rightarrow>
               (0, w1\<lparr>names := (names w1)(p := Some (length (files w1))),
                      files := files w1 @ [new_inode S_IFDIR mode]\<rparr>)))"

definition sys_close :: "int \<Rightarrow> world \<Rightarrow> int \<times> world" where
  "sys_close fd w =
     (case consult (EvClose fd) w of
        (Fail e, w1) \<Rightarrow> (-1, failing e w1)
      | (_, w1) \<Rightarrow>
          (case fd_lookup w1 fd of
             None \<Rightarrow> (-1, failing EBADF w1)
           | Some d \<Rightarrow> (0, w1\<lparr>fdtab := (fdtab w1)[nat fd := None]\<rparr>)))"

text \<open>
  \<^verbatim>\<open>read\<close> returns the byte count and the bytes it put into the buffer. At the end of
  the data it returns 0. A \<open>Partial k\<close> read delivers at most \<open>k\<close> bytes, and at least
  one when there is one: 0 is kept for the end of the data.
\<close>

definition sys_read :: "int \<Rightarrow> nat \<Rightarrow> world \<Rightarrow> (int \<times> char list) \<times> world" where
  "sys_read fd blen w =
     (case consult (EvRead fd blen) w of
        (Fail e, w1) \<Rightarrow> ((-1, []), failing e w1)
      | (oc, w1) \<Rightarrow>
          (case fd_file w1 fd of
             None \<Rightarrow> ((-1, []), failing EBADF w1)
           | Some (d, f) \<Rightarrow>
               if \<not> o_rd d then ((-1, []), failing EBADF w1)
               else if i_type f = S_IFDIR then ((-1, []), failing EISDIR w1)
               else
                 (let cap = (case oc of Partial k \<Rightarrow> min blen (max 1 k) | _ \<Rightarrow> blen);
                      got = take cap (drop (o_off d) (i_data f))
                  in ((int (length got), got),
                      w1\<lparr>fdtab := (fdtab w1)[nat fd := Some (d\<lparr>o_off := o_off d + length got\<rparr>)]\<rparr>))))"

text \<open>Writing \<open>bs\<close> at offset \<open>off\<close>: a gap before the offset reads as zero bytes, and
  writing nothing changes nothing.\<close>

definition put_bytes :: "nat \<Rightarrow> char list \<Rightarrow> char list \<Rightarrow> char list" where
  "put_bytes off bs old =
     (if bs = [] then old
      else take off (old @ replicate (off - length old) (CHR 0x00)) @ bs
             @ drop (off + length bs) old)"

text \<open>\<^verbatim>\<open>write\<close> returns the byte count; a \<open>Partial k\<close> write takes at most \<open>k\<close> bytes,
  none when \<open>k = 0\<close>.\<close>

definition sys_write :: "int \<Rightarrow> char list \<Rightarrow> world \<Rightarrow> int \<times> world" where
  "sys_write fd bs w =
     (case consult (EvWrite fd bs) w of
        (Fail e, w1) \<Rightarrow> (-1, failing e w1)
      | (oc, w1) \<Rightarrow>
          (case fd_file w1 fd of
             None \<Rightarrow> (-1, failing EBADF w1)
           | Some (d, f) \<Rightarrow>
               if \<not> o_wr d then (-1, failing EBADF w1)
               else
                 (let put = (case oc of Partial k \<Rightarrow> take k bs | _ \<Rightarrow> bs)
                  in (int (length put),
                      update_inode (o_ino d) (\<lambda>g. g\<lparr>i_data := put_bytes (o_off d) put (i_data g)\<rparr>)
                        (w1\<lparr>fdtab := (fdtab w1)[nat fd := Some (d\<lparr>o_off := o_off d + length put\<rparr>)]\<rparr>)))))"

definition sys_ftruncate :: "int \<Rightarrow> nat \<Rightarrow> world \<Rightarrow> int \<times> world" where
  "sys_ftruncate fd len w =
     (case consult (EvFtruncate fd len) w of
        (Fail e, w1) \<Rightarrow> (-1, failing e w1)
      | (_, w1) \<Rightarrow>
          (case fd_file w1 fd of
             None \<Rightarrow> (-1, failing EBADF w1)
           | Some (d, f) \<Rightarrow>
               if \<not> o_wr d \<or> i_type f \<noteq> S_IFREG then (-1, failing EINVAL w1)
               else (0, update_inode (o_ino d)
                          (\<lambda>g. g\<lparr>i_data := take len (i_data g @ replicate (len - length (i_data g)) (CHR 0x00))\<rparr>)
                          w1)))"

text \<open>\<^verbatim>\<open>unlink\<close> removes the name of a file that is not a directory; \<^verbatim>\<open>remove\<close> removes
  a directory as well. The inode stays for the descriptors that are open on it.\<close>

definition sys_unlink :: "string \<Rightarrow> world \<Rightarrow> int \<times> world" where
  "sys_unlink p w =
     (case consult (EvUnlink p) w of
        (Fail e, w1) \<Rightarrow> (-1, failing e w1)
      | (_, w1) \<Rightarrow>
          (case path_lookup w1 p of
             None \<Rightarrow> (-1, failing ENOENT w1)
           | Some (i, f) \<Rightarrow>
               if i_type f = S_IFDIR then (-1, failing EPERM w1)
               else (0, w1\<lparr>names := (names w1)(p := None)\<rparr>)))"

definition sys_remove :: "string \<Rightarrow> world \<Rightarrow> int \<times> world" where
  "sys_remove p w =
     (case consult (EvRemove p) w of
        (Fail e, w1) \<Rightarrow> (-1, failing e w1)
      | (_, w1) \<Rightarrow>
          (case path_lookup w1 p of
             None \<Rightarrow> (-1, failing ENOENT w1)
           | Some (i, f) \<Rightarrow> (0, w1\<lparr>names := (names w1)(p := None)\<rparr>)))"

definition sys_chmod :: "string \<Rightarrow> nat \<Rightarrow> world \<Rightarrow> int \<times> world" where
  "sys_chmod p mode w =
     (case consult (EvChmod p mode) w of
        (Fail e, w1) \<Rightarrow> (-1, failing e w1)
      | (_, w1) \<Rightarrow>
          (case path_lookup w1 p of
             None \<Rightarrow> (-1, failing ENOENT w1)
           | Some (i, f) \<Rightarrow> (0, update_inode i (\<lambda>g. g\<lparr>i_perm := mode\<rparr>) w1)))"

text \<open>The calls that change the metadata of an open file.\<close>

definition sys_fmeta :: "event \<Rightarrow> int \<Rightarrow> (inode \<Rightarrow> inode) \<Rightarrow> world \<Rightarrow> int \<times> world" where
  "sys_fmeta ev fd g w =
     (case consult ev w of
        (Fail e, w1) \<Rightarrow> (-1, failing e w1)
      | (_, w1) \<Rightarrow>
          (case fd_file w1 fd of
             None \<Rightarrow> (-1, failing EBADF w1)
           | Some (d, f) \<Rightarrow> (0, update_inode (o_ino d) g w1)))"

definition sys_fchmod :: "int \<Rightarrow> nat \<Rightarrow> world \<Rightarrow> int \<times> world" where
  "sys_fchmod fd mode w = sys_fmeta (EvFchmod fd mode) fd (\<lambda>g. g\<lparr>i_perm := mode\<rparr>) w"

definition sys_fchflags :: "int \<Rightarrow> nat \<Rightarrow> world \<Rightarrow> int \<times> world" where
  "sys_fchflags fd fl w = sys_fmeta (EvFchflags fd fl) fd (\<lambda>g. g\<lparr>i_flags := fl\<rparr>) w"

definition sys_fchown :: "int \<Rightarrow> nat \<Rightarrow> nat \<Rightarrow> world \<Rightarrow> int \<times> world" where
  "sys_fchown fd u g w = sys_fmeta (EvFchown fd u g) fd (\<lambda>f. f\<lparr>i_uid := u, i_gid := g\<rparr>) w"

definition sys_futimes :: "int \<Rightarrow> int \<Rightarrow> int \<Rightarrow> world \<Rightarrow> int \<times> world" where
  "sys_futimes fd a m w =
     sys_fmeta (EvFutimes fd a m) fd (\<lambda>f. f\<lparr>i_atime := a, i_mtime := m\<rparr>) w"

text \<open>\<^verbatim>\<open>calloc\<close>, \<^verbatim>\<open>malloc\<close> and \<^verbatim>\<open>strdup\<close>: \<open>False\<close> is the null pointer. Memory itself is
  not modelled, and \<^verbatim>\<open>free\<close> does nothing here.\<close>

definition sys_alloc :: "event \<Rightarrow> world \<Rightarrow> bool \<times> world" where
  "sys_alloc ev w =
     (case consult ev w of
        (Fail e, w1) \<Rightarrow> (False, failing e w1)
      | (_, w1) \<Rightarrow> (True, w1))"

text \<open>\<^verbatim>\<open>strtol(e, NULL, 0)\<close>: the value returned, as an integer.\<close>

definition sys_strtol :: "string \<Rightarrow> world \<Rightarrow> int \<times> world" where
  "sys_strtol e w =
     (case libc_strtol w e of
        NoConversion \<Rightarrow> (0, if strtol_einval w then failing EINVAL w else w)
      | Converted v \<Rightarrow> (v, w)
      | OutOfRange v \<Rightarrow> (v, failing ERANGE w))"

text \<open>\<^verbatim>\<open>strncmp(a, b, n) != 0\<close>, for strings without a zero byte.\<close>

definition strncmp_differs :: "string \<Rightarrow> string \<Rightarrow> nat \<Rightarrow> bool" where
  "strncmp_differs a b n = (take n a \<noteq> take n b)"

text \<open>The permission bits the code names.\<close>

definition S_IRUSR :: nat where "S_IRUSR = 256"
definition S_IWUSR :: nat where "S_IWUSR = 128"

section \<open>The state handle\<close>

text \<open>
  \<^verbatim>\<open>copyfile.h\<close> is not among the sources, so the bit positions of the flags are not
  known here. Every test the code makes is \<^verbatim>\<open>FLAG & flags\<close> for one named flag, so a
  flag word is modelled as the set of the flags named in it. \<^verbatim>\<open>COPYFILE_DEBUG\<close> is
  defined in \<^verbatim>\<open>copyfile.c\<close> itself.
\<close>

datatype copyfile_flag =
  COPYFILE_ACL | COPYFILE_STAT | COPYFILE_XATTR | COPYFILE_DATA | COPYFILE_CHECK
  | COPYFILE_EXCL | COPYFILE_NOFOLLOW_SRC | COPYFILE_NOFOLLOW_DST | COPYFILE_MOVE
  | COPYFILE_UNLINK | COPYFILE_VERBOSE | COPYFILE_DEBUG

text \<open>The selectors of \<^verbatim>\<open>copyfile_state_get\<close> and \<^verbatim>\<open>copyfile_state_set\<close>;
  \<open>COPYFILE_STATE_OTHER\<close> is any other number (the \<^verbatim>\<open>default\<close> of the switch).\<close>

datatype state_field =
  COPYFILE_STATE_SRC_FD | COPYFILE_STATE_DST_FD | COPYFILE_STATE_SRC_FILENAME
  | COPYFILE_STATE_DST_FILENAME | COPYFILE_STATE_OTHER nat

text \<open>\<^verbatim>\<open>struct _copyfile_state\<close>. A null string pointer is \<open>None\<close>. The fields \<^verbatim>\<open>stats\<close> and
  \<^verbatim>\<open>callbacks\<close> are never used by the code and are left out.\<close>

record copyfile_state =
  src :: "string option"
  dst :: "string option"
  src_fd :: int
  dst_fd :: int
  sb :: stat
  flags :: "copyfile_flag set"
  debug :: "32 word"

text \<open>What a non-null \<^verbatim>\<open>const void *thing\<close> points to: the code reads it as an \<^verbatim>\<open>int\<close> for
  a descriptor field and as a string for a path field.\<close>

record pointee =
  as_int :: int
  as_str :: string

text \<open>\<^verbatim>\<open>copyfile_state_alloc\<close> (lines 329-341).\<close>

definition copyfile_state_alloc :: "world \<Rightarrow> copyfile_state option \<times> world" where
  "copyfile_state_alloc w =
     (case sys_alloc EvCalloc w of
        (True, w1) \<Rightarrow>
          (Some \<lparr>src = None, dst = None, src_fd = -2, dst_fd = -2, sb = zero_stat,
                 flags = {}, debug = 0\<rparr>, w1)
      | (False, w1) \<Rightarrow> (None, failing ENOMEM w1))"

text \<open>\<^verbatim>\<open>copyfile_close\<close> (lines 370-381).\<close>

definition copyfile_close :: "copyfile_state \<Rightarrow> world \<Rightarrow> int \<times> world" where
  "copyfile_close s w =
     (let w1 = (if src s \<noteq> None \<and> src_fd s \<ge> 0 then snd (sys_close (src_fd s) w) else w)
      in if dst s \<noteq> None \<and> dst_fd s \<ge> 0 then
           (case sys_close (dst_fd s) w1 of
              (r, w2) \<Rightarrow> if r \<noteq> 0 then (-1, w2) else (0, w2))
         else (0, w1))"

text \<open>\<^verbatim>\<open>copyfile_state_free\<close> (lines 347-364). The handle returned is \<open>None\<close> once the
  memory has been released, and the handle given when it has not.\<close>

definition copyfile_state_free ::
  "copyfile_state option \<Rightarrow> world \<Rightarrow> int \<times> copyfile_state option \<times> world" where
  "copyfile_state_free h w =
     (case h of
        None \<Rightarrow> (0, None, w)
      | Some s \<Rightarrow>
          (case copyfile_close s w of
             (r, w1) \<Rightarrow> if r < 0 then (-1, Some s, w1) else (0, None, w1)))"

text \<open>The macro \<^verbatim>\<open>copyfile_set_string(DST, SRC)\<close> (lines 670-680): the new value of
  \<^verbatim>\<open>DST\<close>. \<^verbatim>\<open>strdup\<close> returns null when it fails, and that is stored.\<close>

definition copyfile_set_string ::
  "string option \<Rightarrow> string option \<Rightarrow> world \<Rightarrow> string option \<times> world" where
  "copyfile_set_string DST SRC w =
     (case SRC of
        Some str \<Rightarrow>
          (case sys_alloc (EvStrdup str) w of
             (True, w1) \<Rightarrow> (Some str, w1)
           | (False, w1) \<Rightarrow> (None, w1))
      | None \<Rightarrow> (None, w))"

text \<open>\<^verbatim>\<open>copyfile_state_set\<close> (lines 668-716).\<close>

definition copyfile_state_set ::
  "copyfile_state \<Rightarrow> state_field \<Rightarrow> pointee option \<Rightarrow> world \<Rightarrow> int \<times> copyfile_state \<times> world" where
  "copyfile_state_set s flag thing w =
     (case thing of
        None \<Rightarrow> (-1, s, failing EFAULT w)
      | Some p \<Rightarrow>
          (case flag of
             COPYFILE_STATE_SRC_FD \<Rightarrow> (0, s\<lparr>src_fd := as_int p\<rparr>, w)
           | COPYFILE_STATE_DST_FD \<Rightarrow> (0, s\<lparr>dst_fd := as_int p\<rparr>, w)
           | COPYFILE_STATE_SRC_FILENAME \<Rightarrow>
               (case copyfile_set_string (src s) (map_option as_str thing) w of
                  (v, w1) \<Rightarrow> (0, s\<lparr>src := v\<rparr>, w1))
           | COPYFILE_STATE_DST_FILENAME \<Rightarrow>
               (case copyfile_set_string (dst s) (map_option as_str thing) w of
                  (v, w1) \<Rightarrow> (0, s\<lparr>dst := v\<rparr>, w1))
           | COPYFILE_STATE_OTHER k \<Rightarrow> (-1, s, failing EINVAL w)))"

section \<open>The copy\<close>

definition COPYFILE_DEBUG_VAR :: string where
  "COPYFILE_DEBUG_VAR = ''COPYFILE_DEBUG''"

text \<open>\<^verbatim>\<open>copyfile_preamble\<close> (lines 239-278): the status, the handle (\<open>None\<close> when the
  allocation failed) and the world. \<^verbatim>\<open>copyfile_debug\<close> and \<^verbatim>\<open>copyfile_warn\<close> only write
  to the log and are not modelled, here and below.\<close>

definition copyfile_preamble ::
  "copyfile_state option \<Rightarrow> copyfile_flag set \<Rightarrow> world \<Rightarrow> int \<times> copyfile_state option \<times> world" where
  "copyfile_preamble state flgs w =
     (case (case state of None \<Rightarrow> copyfile_state_alloc w | Some s0 \<Rightarrow> (Some s0, w)) of
        (None, w1) \<Rightarrow> (-1, None, w1)
      | (Some s, w1) \<Rightarrow>
          (case (if COPYFILE_DEBUG \<in> flgs then
                   (case environ w1 COPYFILE_DEBUG_VAR of
                      Some e \<Rightarrow>
                        (case sys_strtol e (w1\<lparr>errno := None\<rparr>) of
                           (v, w2) \<Rightarrow>
                             (let s1 = s\<lparr>debug := word_of_int v\<rparr>
                              in (if debug s1 = 0 \<and> errno w2 \<noteq> None then s1\<lparr>debug := 1\<rparr> else s1,
                                  w2)))
                    | None \<Rightarrow> (s, w1))
                 else (s, w1)) of
             (s2, w2) \<Rightarrow> (0, Some (s2\<lparr>flags := flgs\<rparr>), w2)))"

text \<open>The macro \<^verbatim>\<open>COPYFILE_SET_FNAME(NAME, S)\<close> (lines 193-211), for \<^verbatim>\<open>NAME\<close> one of
  \<^verbatim>\<open>src\<close> and \<^verbatim>\<open>dst\<close>. The first component says that the macro ran its \<^verbatim>\<open>return -1\<close>.\<close>

datatype fname = NAME_src | NAME_dst

definition get_name :: "fname \<Rightarrow> copyfile_state \<Rightarrow> string option" where
  "get_name N s = (case N of NAME_src \<Rightarrow> src s | NAME_dst \<Rightarrow> dst s)"

definition get_fd :: "fname \<Rightarrow> copyfile_state \<Rightarrow> int" where
  "get_fd N s = (case N of NAME_src \<Rightarrow> src_fd s | NAME_dst \<Rightarrow> dst_fd s)"

definition set_name :: "fname \<Rightarrow> string option \<Rightarrow> copyfile_state \<Rightarrow> copyfile_state" where
  "set_name N v s = (case N of NAME_src \<Rightarrow> s\<lparr>src := v\<rparr> | NAME_dst \<Rightarrow> s\<lparr>dst := v\<rparr>)"

definition set_fd :: "fname \<Rightarrow> int \<Rightarrow> copyfile_state \<Rightarrow> copyfile_state" where
  "set_fd N v s = (case N of NAME_src \<Rightarrow> s\<lparr>src_fd := v\<rparr> | NAME_dst \<Rightarrow> s\<lparr>dst_fd := v\<rparr>)"

definition COPYFILE_SET_FNAME ::
  "fname \<Rightarrow> string option \<Rightarrow> copyfile_state \<Rightarrow> world \<Rightarrow> bool \<times> copyfile_state \<times> world" where
  "COPYFILE_SET_FNAME N name s w =
     (case name of
        None \<Rightarrow> (False, s, w)
      | Some nm \<Rightarrow>
          (case (case get_name N s of
                   Some old \<Rightarrow>
                     if strncmp_differs nm old (maxpathlen w) then
                       (if get_fd N s \<noteq> -2 \<and> get_fd N s > -1
                        then (set_fd N (-2) s, snd (sys_close (get_fd N s) w))
                        else (s, w))
                     else (s, w)
                 | None \<Rightarrow> (s, w)) of
             (s1, w1) \<Rightarrow>
               (let s2 = (if get_name N s1 \<noteq> None then set_name N None s1 else s1)
                in case sys_alloc (EvStrdup nm) w1 of
                     (True, w2) \<Rightarrow> (False, set_name N (Some nm) s2, w2)
                   | (False, w2) \<Rightarrow> (True, set_name N None s2, w2))))"

text \<open>How a loop or a part of a function ends: it leaves the function with a status,
  or control goes on after it.\<close>

datatype flow = Exit int | Done

text \<open>\<^verbatim>\<open>copyfile_open\<close> (lines 389-504), first half: the source (lines 395-424). The
  second component is \<^verbatim>\<open>isdir\<close>.\<close>

definition open_src_fd ::
  "string \<Rightarrow> bool \<Rightarrow> copyfile_state \<Rightarrow> world \<Rightarrow> flow \<times> bool \<times> copyfile_state \<times> world" where
  "open_src_fd p isdir s w =
     (let osrc = {} in
      case sys_open p ({O_RDONLY} \<union> osrc) 0 w of
        (fd, w1) \<Rightarrow>
          (let s1 = s\<lparr>src_fd := fd\<rparr>
           in if fd < 0 then (Exit (-1), isdir, s1, w1) else (Done, isdir, s1, w1)))"

definition copyfile_open_src ::
  "copyfile_state \<Rightarrow> world \<Rightarrow> flow \<times> bool \<times> copyfile_state \<times> world" where
  "copyfile_open_src s w =
     (case src s of
        Some p \<Rightarrow>
          if src_fd s = -2 then
            (case sys_stat p w of
               ((r, st), w1) \<Rightarrow>
                 if r < 0 then (Exit (-1), False, s, w1)
                 else
                   (let s1 = s\<lparr>sb := (case st of Some x \<Rightarrow> x | None \<Rightarrow> sb s)\<rparr>
                    in case st_type (sb s1) of
                         S_IFDIR \<Rightarrow> open_src_fd p True s1 w1
                       | S_IFREG \<Rightarrow> open_src_fd p False s1 w1
                       | _ \<Rightarrow> (Exit (-1), False, s1, failing ENOTSUP w1)))
          else (Done, False, s, w)
      | None \<Rightarrow> (Done, False, s, w))"

text \<open>The \<^verbatim>\<open>while\<close> loop that opens a destination that is not a directory (lines
  460-492). \<open>p\<close> is \<^verbatim>\<open>s->dst\<close>, which the loop does not change. The loop has no bound
  in the code, so it runs on fuel: \<open>None\<close> is a loop that has not ended.\<close>

fun open_dst_loop ::
  "nat \<Rightarrow> string \<Rightarrow> copyfile_state \<Rightarrow> oflag set \<Rightarrow> oflag set \<Rightarrow> bool \<Rightarrow> world
    \<Rightarrow> (flow \<times> copyfile_state \<times> world) option" where
  "open_dst_loop 0 p s oflags dsrc isdir w = None"
| "open_dst_loop (Suc n) p s oflags dsrc isdir w =
     (case sys_open p (oflags \<union> dsrc) (st_perm (sb s) OR S_IWUSR) w of
        (fd, w1) \<Rightarrow>
          (let s1 = s\<lparr>dst_fd := fd\<rparr>
           in if fd < 0 then
                (case errno w1 of
                   Some EEXIST \<Rightarrow>
                     if COPYFILE_EXCL \<in> flags s1 then Some (Exit (-1), s1, w1)
                     else open_dst_loop n p s1 (oflags - {O_CREAT}) dsrc isdir w1
                 | Some EACCES \<Rightarrow>
                     (case sys_chmod p (st_perm (sb s1) OR S_IWUSR) w1 of
                        (c, w2) \<Rightarrow>
                          if c = 0 then open_dst_loop n p s1 oflags dsrc isdir w2
                          else Some (Exit (-1), s1, w2))
                 | Some EISDIR \<Rightarrow>
                     if COPYFILE_EXCL \<in> flags s1 \<or> (\<not> isdir \<and> COPYFILE_DATA \<in> flags s1)
                     then Some (Exit (-1), s1, w1)
                     else open_dst_loop n p s1 ((oflags - {O_WRONLY}) \<union> {O_RDONLY}) dsrc isdir w1
                 | _ \<Rightarrow> Some (Exit (-1), s1, w1))
              else Some (Done, s1, w1)))"

text \<open>\<^verbatim>\<open>copyfile_open\<close>, second half: the destination (lines 426-494).\<close>

definition copyfile_open_dst ::
  "nat \<Rightarrow> bool \<Rightarrow> copyfile_state \<Rightarrow> world \<Rightarrow> (flow \<times> copyfile_state \<times> world) option" where
  "copyfile_open_dst n isdir s w =
     (let oflags = {O_EXCL, O_CREAT, O_WRONLY} in
      case dst s of
        Some p \<Rightarrow>
          if dst_fd s = -2 then
            (case (if COPYFILE_UNLINK \<in> flags s then
                     (case sys_remove p w of
                        (r, w1) \<Rightarrow> (r < 0 \<and> errno w1 \<noteq> Some ENOENT, w1))
                   else (False, w)) of
               (True, w1) \<Rightarrow> Some (Exit (-1), s, w1)
             | (False, w1) \<Rightarrow>
                 (let dsrc = (if COPYFILE_NOFOLLOW_DST \<in> flags s then {O_NOFOLLOW} else {})
                  in if isdir then
                       (let mode = st_perm (sb s) in
                        case sys_mkdir p mode w1 of
                          (m, w2) \<Rightarrow>
                            if m = -1 \<and> (errno w2 \<noteq> Some EEXIST \<or> COPYFILE_EXCL \<in> flags s)
                            then Some (Exit (-1), s, w2)
                            else
                              (case sys_open p ({O_RDONLY} \<union> dsrc) 0 w2 of
                                 (fd, w3) \<Rightarrow>
                                   (let s1 = s\<lparr>dst_fd := fd\<rparr>
                                    in if fd = -1 then Some (Exit (-1), s1, w3)
                                       else Some (Done, s1, w3))))
                     else open_dst_loop n p s oflags dsrc isdir w1))
          else Some (Done, s, w)
      | None \<Rightarrow> Some (Done, s, w))"

definition copyfile_open ::
  "nat \<Rightarrow> copyfile_state \<Rightarrow> world \<Rightarrow> (int \<times> copyfile_state \<times> world) option" where
  "copyfile_open n s w =
     (case copyfile_open_src s w of
        (Exit r, isdir, s1, w1) \<Rightarrow> Some (r, s1, w1)
      | (Done, isdir, s1, w1) \<Rightarrow>
          (case copyfile_open_dst n isdir s1 w1 of
             None \<Rightarrow> None
           | Some (Exit r, s2, w2) \<Rightarrow> Some (r, s2, w2)
           | Some (Done, s2, w2) \<Rightarrow>
               if dst_fd s2 < 0 \<or> src_fd s2 < 0 then Some (-1, s2, failing EINVAL w2)
               else Some (0, s2, w2)))"

text \<open>
  \<^verbatim>\<open>copyfile_data\<close> (lines 512-590). The inner loop (lines 552-573) writes the
  \<open>left\<close> bytes of the buffer \<open>bp\<close> from offset \<open>ptr\<close> on. The counter \<^verbatim>\<open>loop\<close> is
  declared in the body of the loop, so each round starts it at 0. \<^verbatim>\<open>nwritten\<close> is a
  \<^verbatim>\<open>size_t\<close> in the code and \<^verbatim>\<open>case -1\<close> is the value \<^verbatim>\<open>write\<close> returns on an error; it is an
  integer here. Both loops run on fuel.
\<close>

fun write_loop ::
  "nat \<Rightarrow> copyfile_state \<Rightarrow> char list \<Rightarrow> nat \<Rightarrow> nat \<Rightarrow> world \<Rightarrow> (flow \<times> world) option" where
  "write_loop 0 s bp ptr left w = None"
| "write_loop (Suc n) s bp ptr left w =
     (if left > 0 then
        (let loop = (0::int) in
         case sys_write (dst_fd s) (take left (drop ptr bp)) w of
           (nwritten, w1) \<Rightarrow>
             if nwritten = 0 then
               (let loop = loop + 1 in
                if loop > 5 then Some (Exit (-1), failing EAGAIN w1)
                else write_loop n s bp ptr left w1)
             else if nwritten = -1 then Some (Exit (-1), w1)
             else write_loop n s bp (ptr + nat nwritten) (left - nat nwritten) w1)
      else Some (Done, w))"

text \<open>The outer loop (lines 546-574): how it ended, the last \<^verbatim>\<open>nread\<close>, the world.\<close>

fun read_loop ::
  "nat \<Rightarrow> copyfile_state \<Rightarrow> nat \<Rightarrow> world \<Rightarrow> (flow \<times> int \<times> world) option" where
  "read_loop 0 s blen w = None"
| "read_loop (Suc n) s blen w =
     (case sys_read (src_fd s) blen w of
        ((nread, bp), w1) \<Rightarrow>
          if nread > 0 then
            (case write_loop n s bp 0 (nat nread) w1 of
               None \<Rightarrow> None
             | Some (Exit r, w2) \<Rightarrow> Some (Exit r, nread, w2)
             | Some (Done, w2) \<Rightarrow> read_loop n s blen w2)
          else Some (Done, nread, w1))"

text \<open>\<^verbatim>\<open>F_PREALLOCATE\<close> (lines 533-544) is compiled only where the platform has it, and
  its result is thrown away; it is left out.\<close>

definition copyfile_data :: "nat \<Rightarrow> copyfile_state \<Rightarrow> world \<Rightarrow> (int \<times> world) option" where
  "copyfile_data n s w =
     (let ret = (0::int) in
      case sys_fstatfs (src_fd s) w of
        ((r, f_iosize), w1) \<Rightarrow>
          (let iBlocksize = (if r = -1 then st_blksize (sb s) else f_iosize) in
           case sys_alloc (EvMalloc iBlocksize) w1 of
             (False, w2) \<Rightarrow> Some (-1, w2)
           | (True, w2) \<Rightarrow>
               (let blen = iBlocksize in
                case read_loop n s blen w2 of
                  None \<Rightarrow> None
                | Some (Exit r, nread, w3) \<Rightarrow> Some (r, w3)
                | Some (Done, nread, w3) \<Rightarrow>
                    if nread < 0 then Some (ret, w3)
                    else
                      (case sys_ftruncate (dst_fd s) (st_size (sb s)) w3 of
                         (t, w4) \<Rightarrow> if t < 0 then Some (-1, w4) else Some (ret, w4)))))"

text \<open>\<^verbatim>\<open>copyfile_stat\<close> (lines 596-621).\<close>

definition copyfile_stat :: "copyfile_state \<Rightarrow> world \<Rightarrow> int \<times> world" where
  "copyfile_stat s w =
     (let w1 = snd (sys_fchflags (dst_fd s) (st_flags (sb s)) w);
          w2 = snd (sys_fchown (dst_fd s) (st_uid (sb s)) (st_gid (sb s)) w1);
          w3 = snd (sys_fchmod (dst_fd s) (st_perm (sb s)) w2);
          w4 = snd (sys_futimes (dst_fd s) (st_atime (sb s)) (st_mtime (sb s)) w3)
      in (0, w4))"

text \<open>\<^verbatim>\<open>copyfile_internal\<close> (lines 285-324); \<open>internal_stat\<close> is its second step
  (lines 313-323), entered with the value \<^verbatim>\<open>ret\<close> has then.\<close>

definition internal_stat ::
  "copyfile_state \<Rightarrow> copyfile_flag set \<Rightarrow> int \<Rightarrow> world \<Rightarrow> (int \<times> world) option" where
  "internal_stat s flgs ret w =
     (if COPYFILE_STAT \<in> flgs then
        (case copyfile_stat s w of (ret1, w1) \<Rightarrow> Some (ret1, w1))
      else Some (ret, w))"

definition copyfile_internal ::
  "nat \<Rightarrow> copyfile_state \<Rightarrow> copyfile_flag set \<Rightarrow> world \<Rightarrow> (int \<times> world) option" where
  "copyfile_internal n s flgs w =
     (let ret = (0::int) in
      if dst_fd s < 0 \<or> src_fd s < 0 then Some (-1, failing EINVAL w)
      else if COPYFILE_DATA \<in> flgs then
        (case copyfile_data n s w of
           None \<Rightarrow> None
         | Some (ret1, w1) \<Rightarrow>
             if ret1 < 0 then
               Some (ret1, case dst s of None \<Rightarrow> w1 | Some p \<Rightarrow> snd (sys_unlink p w1))
             else internal_stat s flgs ret1 w1)
      else internal_stat s flgs ret w)"

text \<open>What the caller holds after a call: nothing when it passed a null handle, the
  handle as the call left it otherwise.\<close>

definition caller_view :: "copyfile_state option \<Rightarrow> copyfile_state \<Rightarrow> copyfile_state option" where
  "caller_view state s = (case state of None \<Rightarrow> None | Some s0 \<Rightarrow> Some s)"

text \<open>The label \<^verbatim>\<open>exit\<close> of \<^verbatim>\<open>copyfile\<close> (lines 223-227), and the end of \<^verbatim>\<open>fcopyfile\<close> (lines
  154-157): the handle is freed when the caller gave none.\<close>

definition copyfile_exit ::
  "copyfile_state option \<Rightarrow> copyfile_state \<Rightarrow> int \<Rightarrow> world \<Rightarrow> int \<times> copyfile_state option \<times> world" where
  "copyfile_exit state s ret w =
     (if state = None then
        (case copyfile_state_free (Some s) w of (r, h, w1) \<Rightarrow> (ret, None, w1))
      else (ret, Some s, w))"

text \<open>\<^verbatim>\<open>copyfile\<close> (lines 167-232).\<close>

definition copyfile ::
  "nat \<Rightarrow> string option \<Rightarrow> string option \<Rightarrow> copyfile_state option \<Rightarrow> copyfile_flag set \<Rightarrow> world
    \<Rightarrow> (int \<times> copyfile_state option \<times> world) option" where
  "copyfile n src_arg dst_arg state flgs w =
     (if src_arg = None \<and> dst_arg = None then Some (-1, state, failing EINVAL w)
      else
        case copyfile_preamble state flgs w of
          (r, None, w1) \<Rightarrow> Some (-1, state, w1)
        | (r, Some s, w1) \<Rightarrow>
            (case COPYFILE_SET_FNAME NAME_src src_arg s w1 of
               (True, s2, w2) \<Rightarrow> Some (-1, caller_view state s2, w2)
             | (False, s2, w2) \<Rightarrow>
                 (case COPYFILE_SET_FNAME NAME_dst dst_arg s2 w2 of
                    (True, s3, w3) \<Rightarrow> Some (-1, caller_view state s3, w3)
                  | (False, s3, w3) \<Rightarrow>
                      (case copyfile_open n s3 w3 of
                         None \<Rightarrow> None
                       | Some (r1, s4, w4) \<Rightarrow>
                           if r1 < 0 then Some (copyfile_exit state s4 (-1) w4)
                           else
                             (case copyfile_internal n s4 flgs w4 of
                                None \<Rightarrow> None
                              | Some (ret, w5) \<Rightarrow> Some (copyfile_exit state s4 ret w5))))))"

text \<open>\<^verbatim>\<open>fcopyfile\<close> (lines 105-159). \<^verbatim>\<open>dst_sb\<close> is a local that only \<^verbatim>\<open>fstat\<close> writes to.\<close>

definition fcopyfile ::
  "nat \<Rightarrow> int \<Rightarrow> int \<Rightarrow> copyfile_state option \<Rightarrow> copyfile_flag set \<Rightarrow> world
    \<Rightarrow> (int \<times> copyfile_state option \<times> world) option" where
  "fcopyfile n src_fd_arg dst_fd_arg state flgs w =
     (if src_fd_arg < 0 \<or> dst_fd_arg < 0 then Some (-1, state, failing EINVAL w)
      else
        case copyfile_preamble state flgs w of
          (r, None, w1) \<Rightarrow> Some (-1, state, w1)
        | (r, Some s, w1) \<Rightarrow>
            (let s1 = (if src_fd s = -2 \<and> src_fd_arg > -1 then s\<lparr>src_fd := src_fd_arg\<rparr> else s) in
             case sys_fstat (src_fd s1) w1 of
               ((r1, st), w2) \<Rightarrow>
                 (let s2 = s1\<lparr>sb := (case st of Some x \<Rightarrow> x | None \<Rightarrow> sb s1)\<rparr> in
                  if st_type (sb s2) \<noteq> S_IFLNK \<and> st_type (sb s2) \<noteq> S_IFDIR
                       \<and> st_type (sb s2) \<noteq> S_IFREG
                  then Some (-1, caller_view state s2, failing ENOTSUP w2)
                  else
                    (let s3 = (if dst_fd s2 = -2 \<and> dst_fd_arg > -1
                               then s2\<lparr>dst_fd := dst_fd_arg\<rparr> else s2) in
                     case sys_fstat (dst_fd s3) w2 of
                       ((r2, dst_st), w3) \<Rightarrow>
                         (let dst_perm = (case dst_st of Some x \<Rightarrow> st_perm x | None \<Rightarrow> stack_junk w3);
                              w4 = snd (sys_fchmod (dst_fd s3) (dst_perm OR (S_IRUSR OR S_IWUSR)) w3)
                          in case copyfile_internal n s3 flgs w4 of
                               None \<Rightarrow> None
                             | Some (ret, w5) \<Rightarrow>
                                 (let w6 = (if ret \<ge> 0 \<and> COPYFILE_STAT \<notin> flags s3
                                            then snd (sys_fchmod (dst_fd s3) dst_perm w5) else w5)
                                  in Some (copyfile_exit state s3 ret w6)))))))"

section \<open>Example worlds\<close>

text \<open>A script that lets every call run.\<close>

definition plain_script :: "event list \<Rightarrow> event \<Rightarrow> outcome" where
  "plain_script tr ev = Normal"

text \<open>Two regular files, \<open>a\<close> (inode 0) and \<open>b\<close> (inode 1), mode 0644, nothing open.\<close>

definition ex_world :: world where
  "ex_world =
     \<lparr>names = (\<lambda>p. if p = ''a'' then Some 0 else if p = ''b'' then Some 1 else None),
      files = [(new_inode S_IFREG 420)\<lparr>i_data := ''hello''\<rparr>,
               (new_inode S_IFREG 420)\<lparr>i_data := ''old content''\<rparr>],
      fdtab = [], errno = None, trace = [], script = plain_script,
      environ = (\<lambda>v. None), libc_strtol = (\<lambda>e. NoConversion), strtol_einval = True,
      iosize = 4, blksize = 4, maxpathlen = 1024, stack_junk = 0\<rparr>"

text \<open>The same world with both files open: descriptor 0 reads \<open>a\<close>, descriptor 1
  writes \<open>b\<close>.\<close>

definition ex_world_open :: world where
  "ex_world_open =
     ex_world\<lparr>fdtab := [Some \<lparr>o_ino = 0, o_off = 0, o_rd = True, o_wr = False\<rparr>,
                          Some \<lparr>o_ino = 1, o_off = 0, o_rd = False, o_wr = True\<rparr>]\<rparr>"

text \<open>A handle that holds the two descriptors and no path, as a copy by descriptors
  with no handle of the caller's makes it.\<close>

definition ex_state :: copyfile_state where
  "ex_state =
     \<lparr>src = None, dst = None, src_fd = 0, dst_fd = 1, sb = zero_stat, flags = {}, debug = 0\<rparr>"


text \<open>The content of the file a path names.\<close>

definition file_content :: "world \<Rightarrow> string \<Rightarrow> char list option" where
  "file_content w p = map_option (\<lambda>x. i_data (snd x)) (path_lookup w p)"

text \<open>Scripts that make calls fail: every \<^verbatim>\<open>write\<close> and every \<^verbatim>\<open>unlink\<close>; every \<^verbatim>\<open>read\<close>;
  every \<^verbatim>\<open>read\<close> but the first.\<close>

definition write_error_script :: "event list \<Rightarrow> event \<Rightarrow> outcome" where
  "write_error_script tr ev =
     (case ev of EvWrite fd bs \<Rightarrow> Fail EIO | EvUnlink p \<Rightarrow> Fail EACCES | _ \<Rightarrow> Normal)"

definition read_error_script :: "event list \<Rightarrow> event \<Rightarrow> outcome" where
  "read_error_script tr ev = (case ev of EvRead fd k \<Rightarrow> Fail EIO | _ \<Rightarrow> Normal)"

fun is_read :: "event \<Rightarrow> bool" where
  "is_read (EvRead fd k) = True"
| "is_read ev = False"

fun is_write :: "event \<Rightarrow> bool" where
  "is_write (EvWrite fd bs) = True"
| "is_write ev = False"

definition late_read_error_script :: "event list \<Rightarrow> event \<Rightarrow> outcome" where
  "late_read_error_script tr ev =
     (case ev of
        EvRead fd k \<Rightarrow> if list_ex is_read tr then Fail EIO else Normal
      | _ \<Rightarrow> Normal)"

text \<open>A script under which the first \<open>k\<close> calls of \<^verbatim>\<open>write\<close> take no byte and return 0,
  and one under which every \<^verbatim>\<open>write\<close> does.\<close>

definition stalling_script :: "nat \<Rightarrow> event list \<Rightarrow> event \<Rightarrow> outcome" where
  "stalling_script k tr ev =
     (case ev of
        EvWrite fd bs \<Rightarrow> if length (filter is_write tr) < k then Partial 0 else Normal
      | _ \<Rightarrow> Normal)"

definition stuck_script :: "event list \<Rightarrow> event \<Rightarrow> outcome" where
  "stuck_script tr ev = (case ev of EvWrite fd bs \<Rightarrow> Partial 0 | _ \<Rightarrow> Normal)"

text \<open>A handle that holds both paths and both descriptors of \<open>ex_world_open\<close>, with the
  status of \<open>a\<close> captured.\<close>

definition ex_state_paths :: copyfile_state where
  "ex_state_paths =
     ex_state\<lparr>src := Some ''a'', dst := Some ''b'',
               sb := stat_of ex_world_open ((new_inode S_IFREG 420)\<lparr>i_data := ''hello''\<rparr>)\<rparr>"

text \<open>A script under which every \<^verbatim>\<open>write\<close> fails and every other call runs.\<close>

definition write_fault_script :: "event list \<Rightarrow> event \<Rightarrow> outcome" where
  "write_fault_script tr ev = (case ev of EvWrite fd bs \<Rightarrow> Fail EIO | _ \<Rightarrow> Normal)"

text \<open>A handle as \<^verbatim>\<open>copyfile_state_alloc\<close> returns it: no path, both descriptors -2.\<close>

definition ex_state_unset :: copyfile_state where
  "ex_state_unset =
     \<lparr>src = None, dst = None, src_fd = -2, dst_fd = -2, sb = zero_stat, flags = {}, debug = 0\<rparr>"

section \<open>Freeing a handle\<close>

lemma sys_close_script [simp]: "script (snd (sys_close a w)) = script w"
  by (simp add: sys_close_def consult_def logged_def failing_def split: outcome.splits option.splits)

lemma sys_close_lookup:
  assumes "\<forall>tr fd e. script w tr (EvClose fd) \<noteq> Fail e" "0 \<le> a"
  shows "fd_lookup (snd (sys_close a w)) fd = (if fd = a then None else fd_lookup w fd)"
  using assms
  by (auto simp add: sys_close_def consult_def logged_def failing_def fd_lookup_def nth_list_update
           split: outcome.splits option.splits)

text \<open>
  Claim C6, as amended. \<^verbatim>\<open>copyfile_state_free\<close> closes a descriptor of the handle when it
  is not negative and the path string of the same side is stored on the handle, and
  no other: when no \<^verbatim>\<open>close\<close> is made to fail, a descriptor \<open>fd\<close> is open afterwards
  exactly when it was open before and is not such a descriptor of the handle. A
  descriptor held without its path, as in a handle used for a copy by descriptors,
  stays open.
\<close>

theorem copyfile_state_free_closes_named:
  assumes "\<forall>tr fd e. script w tr (EvClose fd) \<noteq> Fail e"
  shows "fd_lookup (snd (snd (copyfile_state_free (Some s) w))) fd =
           (if (src s \<noteq> None \<and> 0 \<le> src_fd s \<and> fd = src_fd s)
               \<or> (dst s \<noteq> None \<and> 0 \<le> dst_fd s \<and> fd = dst_fd s)
            then None else fd_lookup w fd)"
proof -
  let ?w1 = "if src s \<noteq> None \<and> src_fd s \<ge> 0 then snd (sys_close (src_fd s) w) else w"
  have s1: "\<forall>tr fd e. script ?w1 tr (EvClose fd) \<noteq> Fail e"
    using assms by simp
  have l1: "fd_lookup ?w1 fd = (if src s \<noteq> None \<and> 0 \<le> src_fd s \<and> fd = src_fd s then None else fd_lookup w fd)"
    using sys_close_lookup [OF assms, of "src_fd s" fd] by auto
  have "snd (snd (copyfile_state_free (Some s) w)) =
          (if dst s \<noteq> None \<and> dst_fd s \<ge> 0 then snd (sys_close (dst_fd s) ?w1) else ?w1)"
    by (simp add: copyfile_state_free_def copyfile_close_def Let_def split: prod.splits)
  then show ?thesis
    using sys_close_lookup [OF s1, of "dst_fd s" fd] l1 by auto
qed

theorem copyfile_state_free_closes_named_witness:
  "fd_lookup (snd (snd (copyfile_state_free
       (Some (ex_state\<lparr>src := Some ''a'', dst := Some ''b''\<rparr>)) ex_world_open))) 0 = None
   \<and> fd_lookup (snd (snd (copyfile_state_free
       (Some (ex_state\<lparr>src := Some ''a'', dst := Some ''b''\<rparr>)) ex_world_open))) 1 = None
   \<and> fd_lookup (snd (snd (copyfile_state_free
       (Some (ex_state\<lparr>src := Some ''a''\<rparr>)) ex_world_open))) 1 \<noteq> None"
  using copyfile_state_free_closes_named
          [of ex_world_open "ex_state\<lparr>src := Some ''a'', dst := Some ''b''\<rparr>" 0]
        copyfile_state_free_closes_named
          [of ex_world_open "ex_state\<lparr>src := Some ''a'', dst := Some ''b''\<rparr>" 1]
        copyfile_state_free_closes_named [of ex_world_open "ex_state\<lparr>src := Some ''a''\<rparr>" 1]
  by (simp add: ex_world_open_def ex_world_def ex_state_def plain_script_def fd_lookup_def)

text \<open>Claim C6 as it was stated fails: a handle that holds the open descriptor 0 and no
  path string is freed, and descriptor 0 is still open.\<close>

theorem copyfile_state_free_keeps_unnamed:
  "\<not> (fd_lookup (snd (snd (copyfile_state_free (Some ex_state) ex_world_open))) 0 = None)"
  by (simp add: copyfile_state_free_def copyfile_close_def ex_state_def ex_world_open_def
        ex_world_def fd_lookup_def)

section \<open>Setting a field of the handle\<close>

text \<open>
  Claim C8, as amended. \<^verbatim>\<open>copyfile_state_set\<close> with a null value fails for every
  field: it returns -1, sets \<^verbatim>\<open>errno\<close> to \<^verbatim>\<open>EFAULT\<close>, and changes nothing else, neither
  the stored path nor the descriptor.
\<close>

theorem copyfile_state_set_null_fails:
  "copyfile_state_set s flag None w = (-1, s, w\<lparr>errno := Some EFAULT\<rparr>)"
  by (simp add: copyfile_state_set_def failing_def)

text \<open>Claim C8 as it was stated fails: setting the source path of a handle to null
  does not return success with the path cleared.\<close>

theorem copyfile_state_set_null_keeps_path:
  "\<not> (case copyfile_state_set (ex_state\<lparr>src := Some ''a''\<rparr>) COPYFILE_STATE_SRC_FILENAME None
            ex_world_open of
        (r, s', w') \<Rightarrow> r = 0 \<and> src s' = None)"
  by (simp add: copyfile_state_set_def)

lemma sys_alloc_frame:
  "sys_alloc ev w = (ok, w') \<Longrightarrow> fdtab w' = fdtab w \<and> files w' = files w \<and> names w' = names w"
  by (auto simp add: sys_alloc_def consult_def logged_def failing_def split: outcome.splits)

lemma copyfile_state_set_src_filename:
  "copyfile_state_set s COPYFILE_STATE_SRC_FILENAME (Some p) w =
     (0, s\<lparr>src := (if fst (sys_alloc (EvStrdup (as_str p)) w) then Some (as_str p) else None)\<rparr>,
      snd (sys_alloc (EvStrdup (as_str p)) w))"
  by (cases "sys_alloc (EvStrdup (as_str p)) w")
     (simp add: copyfile_state_set_def copyfile_set_string_def split: bool.splits)

lemma copyfile_state_set_dst_filename:
  "copyfile_state_set s COPYFILE_STATE_DST_FILENAME (Some p) w =
     (0, s\<lparr>dst := (if fst (sys_alloc (EvStrdup (as_str p)) w) then Some (as_str p) else None)\<rparr>,
      snd (sys_alloc (EvStrdup (as_str p)) w))"
  by (cases "sys_alloc (EvStrdup (as_str p)) w")
     (simp add: copyfile_state_set_def copyfile_set_string_def split: bool.splits)

lemma COPYFILE_SET_FNAME_differs:
  assumes "get_name N s = Some old" "get_fd N s > -1" "strncmp_differs nm old (maxpathlen w)"
  shows "COPYFILE_SET_FNAME N (Some nm) s w =
           (case sys_alloc (EvStrdup nm) (snd (sys_close (get_fd N s) w)) of
              (ok, w2) \<Rightarrow> (\<not> ok, set_name N (if ok then Some nm else None) (set_fd N (-2) s), w2))"
  using assms
  by (cases N)
     (auto simp add: COPYFILE_SET_FNAME_def get_name_def get_fd_def set_name_def set_fd_def
        split: prod.splits bool.splits)

lemma COPYFILE_SET_FNAME_same:
  assumes "get_name N s = Some old" "\<not> strncmp_differs nm old (maxpathlen w)"
  shows "COPYFILE_SET_FNAME N (Some nm) s w =
           (case sys_alloc (EvStrdup nm) w of
              (ok, w2) \<Rightarrow> (\<not> ok, set_name N (if ok then Some nm else None) s, w2))"
  using assms
  by (cases N)
     (auto simp add: COPYFILE_SET_FNAME_def get_name_def get_fd_def set_name_def set_fd_def
        split: prod.splits bool.splits)

text \<open>
  Claim C7, as amended. \<^verbatim>\<open>copyfile_state_set\<close> on a path field, given a string, returns
  0, stores the copy \<^verbatim>\<open>strdup\<close> made of it (null when \<^verbatim>\<open>strdup\<close> failed), and leaves both
  descriptors of the handle and the descriptor table as they were, whether or not the
  string differs from the stored one. Closing on a change of path is what the path
  mode entry point does, through \<^verbatim>\<open>COPYFILE_SET_FNAME\<close>: when a path is stored and the
  descriptor of that side is not negative, a new path that differs from the stored
  one in its first \<^verbatim>\<open>MAXPATHLEN\<close> characters has the descriptor closed and set to -2
  before the copy of the string is stored, and a new path that does not differ
  leaves the descriptor alone.
\<close>

theorem set_path_and_descriptor:
  "(case copyfile_state_set s COPYFILE_STATE_SRC_FILENAME (Some p) w of
      (r, s', w') \<Rightarrow> r = 0 \<and> src_fd s' = src_fd s \<and> dst_fd s' = dst_fd s
         \<and> src s' = (if fst (sys_alloc (EvStrdup (as_str p)) w) then Some (as_str p) else None)
         \<and> fdtab w' = fdtab w)
   \<and> (case copyfile_state_set s COPYFILE_STATE_DST_FILENAME (Some p) w of
      (r, s', w') \<Rightarrow> r = 0 \<and> src_fd s' = src_fd s \<and> dst_fd s' = dst_fd s
         \<and> dst s' = (if fst (sys_alloc (EvStrdup (as_str p)) w) then Some (as_str p) else None)
         \<and> fdtab w' = fdtab w)
   \<and> (get_name N s = Some old \<and> get_fd N s > -1 \<longrightarrow>
        COPYFILE_SET_FNAME N (Some nm) s w =
          (if strncmp_differs nm old (maxpathlen w)
           then (case sys_alloc (EvStrdup nm) (snd (sys_close (get_fd N s) w)) of
                   (ok, w2) \<Rightarrow> (\<not> ok, set_name N (if ok then Some nm else None) (set_fd N (-2) s), w2))
           else (case sys_alloc (EvStrdup nm) w of
                   (ok, w2) \<Rightarrow> (\<not> ok, set_name N (if ok then Some nm else None) s, w2))))"
proof -
  obtain ok w' where a: "sys_alloc (EvStrdup (as_str p)) w = (ok, w')"
    by (cases "sys_alloc (EvStrdup (as_str p)) w")
  have f: "fdtab w' = fdtab w"
    using sys_alloc_frame [OF a] by simp
  show ?thesis
    using COPYFILE_SET_FNAME_differs [of N s old nm w] COPYFILE_SET_FNAME_same [of N s old nm w]
    by (simp add: copyfile_state_set_src_filename copyfile_state_set_dst_filename a f)
qed

theorem set_path_and_descriptor_witness:
  "(case COPYFILE_SET_FNAME NAME_src (Some ''b'') (ex_state\<lparr>src := Some ''a''\<rparr>) ex_world_open of
      (r, s', w') \<Rightarrow> \<not> r \<and> src s' = Some ''b'' \<and> src_fd s' = -2 \<and> fd_lookup w' 0 = None)
   \<and> (case COPYFILE_SET_FNAME NAME_src (Some ''a'') (ex_state\<lparr>src := Some ''a''\<rparr>) ex_world_open of
      (r, s', w') \<Rightarrow> \<not> r \<and> src s' = Some ''a'' \<and> src_fd s' = 0 \<and> fd_lookup w' 0 \<noteq> None)"
  using set_path_and_descriptor
          [of "ex_state\<lparr>src := Some ''a''\<rparr>" "\<lparr>as_int = 0, as_str = ''b''\<rparr>" ex_world_open
              NAME_src "''a''" "''b''"]
        set_path_and_descriptor
          [of "ex_state\<lparr>src := Some ''a''\<rparr>" "\<lparr>as_int = 0, as_str = ''b''\<rparr>" ex_world_open
              NAME_src "''a''" "''a''"]
  by (simp add: get_name_def get_fd_def set_name_def set_fd_def strncmp_differs_def
        sys_alloc_def sys_close_def consult_def logged_def ex_state_def ex_world_open_def ex_world_def
        plain_script_def fd_lookup_def)

text \<open>Claim C7 as it was stated fails: the handle holds the path \<open>a\<close> and the open
  descriptor 0, \<^verbatim>\<open>copyfile_state_set\<close> stores the path \<open>b\<close>, and descriptor 0 has not been
  closed.\<close>

theorem copyfile_state_set_does_not_close:
  "\<not> (case copyfile_state_set (ex_state\<lparr>src := Some ''a''\<rparr>) COPYFILE_STATE_SRC_FILENAME
            (Some \<lparr>as_int = 0, as_str = ''b''\<rparr>) ex_world_open of
        (r, s', w') \<Rightarrow> fd_lookup w' 0 = None)"
  by (simp add: copyfile_state_set_def copyfile_set_string_def sys_alloc_def consult_def logged_def
        ex_state_def ex_world_open_def ex_world_def plain_script_def fd_lookup_def)

section \<open>The preamble\<close>






section \<open>The coordinator\<close>

lemma sys_unlink_trace: "trace (snd (sys_unlink p w)) = trace w @ [EvUnlink p]"
  by (simp add: sys_unlink_def consult_def logged_def failing_def
        split: outcome.splits option.splits prod.splits)

lemma sys_unlink_frame:
  "files (snd (sys_unlink p w)) = files w" "fdtab (snd (sys_unlink p w)) = fdtab w"
  by (simp_all add: sys_unlink_def consult_def logged_def failing_def
        split: outcome.splits option.splits prod.splits)

lemma sys_unlink_done:
  "fst (sys_unlink p w) = 0 \<Longrightarrow> errno (snd (sys_unlink p w)) = errno w"
  by (simp add: sys_unlink_def consult_def logged_def failing_def
        split: outcome.splits option.splits prod.splits if_splits)

lemma sys_unlink_failed:
  "fst (sys_unlink p w) \<noteq> 0 \<Longrightarrow>
     fst (sys_unlink p w) = -1 \<and> errno (snd (sys_unlink p w)) \<noteq> None
       \<and> names (snd (sys_unlink p w)) = names w"
  by (auto simp add: sys_unlink_def consult_def logged_def failing_def
        split: outcome.splits option.splits prod.splits if_splits)

lemma sys_unlink_fault:
  "script w (trace w) (EvUnlink p) = Fail e \<Longrightarrow>
     fst (sys_unlink p w) = -1 \<and> errno (snd (sys_unlink p w)) = Some e"
  by (simp add: sys_unlink_def consult_def logged_def failing_def)

text \<open>
  Claim C5, amended. When the data step is asked for and \<^verbatim>\<open>copyfile_data\<close> returns a
  negative status \<open>r\<close>, \<^verbatim>\<open>copyfile_internal\<close> returns that same \<open>r\<close>, whatever \<^verbatim>\<open>unlink\<close>
  answers. The calls it makes after the data step are one \<^verbatim>\<open>unlink\<close> of the destination
  path when a destination path is stored on the handle, and none when there is none:
  the removal is attempted exactly when the path is stored, no call of the metadata
  step follows, and no file and no descriptor is changed. The error code is another
  matter. \<^verbatim>\<open>errno\<close> stays as the data step left it when no removal is attempted and when
  the removal succeeds; a removal that fails leaves its own error code there.
\<close>

theorem copyfile_internal_data_failure:
  assumes fds: "0 \<le> dst_fd s" "0 \<le> src_fd s"
    and data: "COPYFILE_DATA \<in> flgs"
    and run: "copyfile_data n s w = Some (r, w1)"
    and neg: "r < 0"
  shows "\<exists>w'. copyfile_internal n s flgs w = Some (r, w')
           \<and> trace w' = trace w1 @ (case dst s of None \<Rightarrow> [] | Some p \<Rightarrow> [EvUnlink p])
           \<and> files w' = files w1 \<and> fdtab w' = fdtab w1
           \<and> (case dst s of
                None \<Rightarrow> errno w' = errno w1
              | Some p \<Rightarrow>
                  if fst (sys_unlink p w1) = 0 then errno w' = errno w1
                  else errno w' = errno (snd (sys_unlink p w1)) \<and> errno w' \<noteq> None
                         \<and> (\<forall>e. script w1 (trace w1) (EvUnlink p) = Fail e
                                \<longrightarrow> errno w' = Some e))"
proof (cases "dst s")
  case None
  then show ?thesis
    using assms by (simp add: copyfile_internal_def)
next
  case (Some p)
  let ?w' = "snd (sys_unlink p w1)"
  have r: "copyfile_internal n s flgs w = Some (r, ?w')"
    using assms Some by (simp add: copyfile_internal_def)
  have e: "if fst (sys_unlink p w1) = 0 then errno ?w' = errno w1
           else errno ?w' = errno (snd (sys_unlink p w1)) \<and> errno ?w' \<noteq> None
                  \<and> (\<forall>e. script w1 (trace w1) (EvUnlink p) = Fail e \<longrightarrow> errno ?w' = Some e)"
  proof (cases "fst (sys_unlink p w1) = 0")
    case True
    then show ?thesis
      by (simp add: sys_unlink_done)
  next
    case False
    have "\<forall>e. script w1 (trace w1) (EvUnlink p) = Fail e \<longrightarrow> errno ?w' = Some e"
      by (simp add: sys_unlink_fault)
    then show ?thesis
      using False sys_unlink_failed [OF False] by simp
  qed
  have "copyfile_internal n s flgs w = Some (r, ?w')
           \<and> trace ?w' = trace w1 @ (case dst s of None \<Rightarrow> [] | Some p \<Rightarrow> [EvUnlink p])
           \<and> files ?w' = files w1 \<and> fdtab ?w' = fdtab w1
           \<and> (case dst s of
                None \<Rightarrow> errno ?w' = errno w1
              | Some p \<Rightarrow>
                  if fst (sys_unlink p w1) = 0 then errno ?w' = errno w1
                  else errno ?w' = errno (snd (sys_unlink p w1)) \<and> errno ?w' \<noteq> None
                         \<and> (\<forall>e. script w1 (trace w1) (EvUnlink p) = Fail e
                                \<longrightarrow> errno ?w' = Some e))"
    unfolding Some option.case using r e
    by (simp only: sys_unlink_trace sys_unlink_frame simp_thms)
  then show ?thesis
    by (rule exI)
qed

theorem copyfile_internal_data_failure_witness:
  "(\<exists>w1 w'. copyfile_data 10 ex_state_paths (ex_world_open\<lparr>script := write_error_script\<rparr>)
                = Some (-1, w1)
       \<and> copyfile_internal 10 ex_state_paths {COPYFILE_DATA, COPYFILE_STAT}
                (ex_world_open\<lparr>script := write_error_script\<rparr>) = Some (-1, w')
       \<and> trace w' = trace w1 @ [EvUnlink ''b''] \<and> files w' = files w1
       \<and> errno w1 = Some EIO \<and> errno w' = Some EACCES)
   \<and> (\<exists>w1 w'. copyfile_data 10 ex_state_paths (ex_world_open\<lparr>script := write_fault_script\<rparr>)
                = Some (-1, w1)
       \<and> copyfile_internal 10 ex_state_paths {COPYFILE_DATA, COPYFILE_STAT}
                (ex_world_open\<lparr>script := write_fault_script\<rparr>) = Some (-1, w')
       \<and> trace w' = trace w1 @ [EvUnlink ''b''] \<and> files w' = files w1
       \<and> errno w1 = Some EIO \<and> errno w' = Some EIO)
   \<and> (\<exists>w1 w'. copyfile_data 10 ex_state (ex_world_open\<lparr>script := write_error_script\<rparr>)
                = Some (-1, w1)
       \<and> copyfile_internal 10 ex_state {COPYFILE_DATA, COPYFILE_STAT}
                (ex_world_open\<lparr>script := write_error_script\<rparr>) = Some (-1, w')
       \<and> trace w' = trace w1 \<and> files w' = files w1
       \<and> errno w1 = Some EIO \<and> errno w' = Some EIO)"
proof -
  let ?we = "ex_world_open\<lparr>script := write_error_script\<rparr>"
  let ?wf = "ex_world_open\<lparr>script := write_fault_script\<rparr>"
  let ?fl = "{COPYFILE_DATA, COPYFILE_STAT}"
  have fds: "0 \<le> dst_fd ex_state_paths" "0 \<le> src_fd ex_state_paths"
    "0 \<le> dst_fd ex_state" "0 \<le> src_fd ex_state"
    by (simp_all add: ex_state_paths_def ex_state_def)
  have p: "dst ex_state_paths = Some ''b''" "dst ex_state = None"
    by (simp_all add: ex_state_paths_def ex_state_def)
  have d: "COPYFILE_DATA \<in> ?fl"
    by simp
  have m: "(-1::int) < 0"
    by simp
  have "case copyfile_data 10 ex_state_paths ?we of
          Some (r, w1) \<Rightarrow>
            r = -1 \<and> errno w1 = Some EIO
              \<and> script w1 (trace w1) (EvUnlink ''b'') = Fail EACCES
        | None \<Rightarrow> False"
    by code_simp
  then obtain w1 where r1: "copyfile_data 10 ex_state_paths ?we = Some (-1, w1)"
    and e1: "errno w1 = Some EIO" and u1: "script w1 (trace w1) (EvUnlink ''b'') = Fail EACCES"
    by (auto split: option.splits prod.splits)
  have "case copyfile_data 10 ex_state_paths ?wf of
          Some (r, w1) \<Rightarrow>
            r = -1 \<and> errno w1 = Some EIO \<and> fst (sys_unlink ''b'' w1) = 0
        | None \<Rightarrow> False"
    by code_simp
  then obtain w2 where r2: "copyfile_data 10 ex_state_paths ?wf = Some (-1, w2)"
    and e2: "errno w2 = Some EIO" and u2: "fst (sys_unlink ''b'' w2) = 0"
    by (auto split: option.splits prod.splits)
  have "case copyfile_data 10 ex_state ?we of
          Some (r, w1) \<Rightarrow> r = -1 \<and> errno w1 = Some EIO
        | None \<Rightarrow> False"
    by code_simp
  then obtain w3 where r3: "copyfile_data 10 ex_state ?we = Some (-1, w3)"
    and e3: "errno w3 = Some EIO"
    by (auto split: option.splits prod.splits)
  have u1': "fst (sys_unlink ''b'' w1) \<noteq> 0"
    using u1 by (simp add: sys_unlink_def consult_def)
  from copyfile_internal_data_failure [OF fds(1,2) d r1 m]
  obtain w1' where a: "copyfile_internal 10 ex_state_paths ?fl ?we = Some (-1, w1')"
    and a1: "trace w1' = trace w1 @ (case dst ex_state_paths of None \<Rightarrow> [] | Some p \<Rightarrow> [EvUnlink p])"
    and a2: "files w1' = files w1"
    and a3: "case dst ex_state_paths of
                None \<Rightarrow> errno w1' = errno w1
              | Some p \<Rightarrow>
                  if fst (sys_unlink p w1) = 0 then errno w1' = errno w1
                  else errno w1' = errno (snd (sys_unlink p w1)) \<and> errno w1' \<noteq> None
                         \<and> (\<forall>e. script w1 (trace w1) (EvUnlink p) = Fail e
                                \<longrightarrow> errno w1' = Some e)"
    by (elim exE conjE)
  have a4: "errno w1' = Some EACCES"
    using a3 u1 u1' by (auto simp add: p)
  from copyfile_internal_data_failure [OF fds(1,2) d r2 m]
  obtain w2' where b: "copyfile_internal 10 ex_state_paths ?fl ?wf = Some (-1, w2')"
    and b1: "trace w2' = trace w2 @ (case dst ex_state_paths of None \<Rightarrow> [] | Some p \<Rightarrow> [EvUnlink p])"
    and b2: "files w2' = files w2"
    and b3: "case dst ex_state_paths of
                None \<Rightarrow> errno w2' = errno w2
              | Some p \<Rightarrow>
                  if fst (sys_unlink p w2) = 0 then errno w2' = errno w2
                  else errno w2' = errno (snd (sys_unlink p w2)) \<and> errno w2' \<noteq> None
                         \<and> (\<forall>e. script w2 (trace w2) (EvUnlink p) = Fail e
                                \<longrightarrow> errno w2' = Some e)"
    by (elim exE conjE)
  have b4: "errno w2' = Some EIO"
    using b3 u2 e2 by (simp add: p)
  from copyfile_internal_data_failure [OF fds(3,4) d r3 m]
  obtain w3' where g: "copyfile_internal 10 ex_state ?fl ?we = Some (-1, w3')"
    and g1: "trace w3' = trace w3 @ (case dst ex_state of None \<Rightarrow> [] | Some p \<Rightarrow> [EvUnlink p])"
    and g2: "files w3' = files w3"
    and g3: "case dst ex_state of
                None \<Rightarrow> errno w3' = errno w3
              | Some p \<Rightarrow>
                  if fst (sys_unlink p w3) = 0 then errno w3' = errno w3
                  else errno w3' = errno (snd (sys_unlink p w3)) \<and> errno w3' \<noteq> None
                         \<and> (\<forall>e. script w3 (trace w3) (EvUnlink p) = Fail e
                                \<longrightarrow> errno w3' = Some e)"
    by (elim exE conjE)
  have g4: "errno w3' = Some EIO"
    using g3 e3 by (simp add: p)
  have "\<exists>w1 w'. copyfile_data 10 ex_state_paths ?we = Some (-1, w1)
       \<and> copyfile_internal 10 ex_state_paths ?fl ?we = Some (-1, w')
       \<and> trace w' = trace w1 @ [EvUnlink ''b''] \<and> files w' = files w1
       \<and> errno w1 = Some EIO \<and> errno w' = Some EACCES"
    using r1 e1 a a1 a2 a4 by (intro exI [of _ w1] exI [of _ w1']) (simp add: p)
  moreover have "\<exists>w1 w'. copyfile_data 10 ex_state_paths ?wf = Some (-1, w1)
       \<and> copyfile_internal 10 ex_state_paths ?fl ?wf = Some (-1, w')
       \<and> trace w' = trace w1 @ [EvUnlink ''b''] \<and> files w' = files w1
       \<and> errno w1 = Some EIO \<and> errno w' = Some EIO"
    using r2 e2 b b1 b2 b4 by (intro exI [of _ w2] exI [of _ w2']) (simp add: p)
  moreover have "\<exists>w1 w'. copyfile_data 10 ex_state ?we = Some (-1, w1)
       \<and> copyfile_internal 10 ex_state ?fl ?we = Some (-1, w')
       \<and> trace w' = trace w1 \<and> files w' = files w1
       \<and> errno w1 = Some EIO \<and> errno w' = Some EIO"
    using r3 e3 g g1 g2 g4 by (intro exI [of _ w3] exI [of _ w3']) (simp add: p)
  ultimately show ?thesis
    by (intro conjI)
qed

text \<open>
  Claim C5 as it was stated fails. The \<^verbatim>\<open>write\<close> fails with \<^verbatim>\<open>EIO\<close> and the removal of \<open>b\<close>
  with \<^verbatim>\<open>EACCES\<close>: the status returned is the -1 of the data step, but the error the
  caller finds in \<^verbatim>\<open>errno\<close> is the \<^verbatim>\<open>EACCES\<close> of the removal and no longer the \<^verbatim>\<open>EIO\<close> of
  the write, since nothing in the code keeps \<^verbatim>\<open>errno\<close> across \<^verbatim>\<open>unlink\<close>. And a transfer
  whose \<^verbatim>\<open>read\<close> fails is not one \<^verbatim>\<open>copyfile_data\<close> reports (its status stays 0, the defect
  of claim C3): with the destination path stored, no removal is attempted and the four
  calls of the metadata step follow.
\<close>

theorem copyfile_internal_removal_replaces_errno:
  "(case copyfile_data 10 ex_state_paths (ex_world_open\<lparr>script := write_error_script\<rparr>) of
      Some (r, w1) \<Rightarrow> r = -1 \<and> errno w1 = Some EIO
    | None \<Rightarrow> False)
   \<and> (case copyfile_internal 10 ex_state_paths {COPYFILE_DATA, COPYFILE_STAT}
             (ex_world_open\<lparr>script := write_error_script\<rparr>) of
      Some (r, w') \<Rightarrow>
        r = -1 \<and> errno w' = Some EACCES
          \<and> trace w' = [EvFstatfs 0, EvMalloc 4, EvRead 0 4, EvWrite 1 ''hell'', EvUnlink ''b'']
    | None \<Rightarrow> False)
   \<and> (case copyfile_internal 10 ex_state_paths {COPYFILE_DATA, COPYFILE_STAT}
             (ex_world_open\<lparr>script := read_error_script\<rparr>) of
      Some (r, w') \<Rightarrow>
        r = 0 \<and> errno w' = Some EIO
          \<and> trace w' = [EvFstatfs 0, EvMalloc 4, EvRead 0 4, EvFchflags 1 0, EvFchown 1 0 0,
                         EvFchmod 1 420, EvFutimes 1 0 0]
    | None \<Rightarrow> False)"
  by code_simp

section \<open>The copy by descriptors\<close>

lemma preamble_of_handle:
  "\<exists>s1 w1. copyfile_preamble (Some s) flgs w = (0, Some s1, w1)
      \<and> src_fd s1 = src_fd s \<and> dst_fd s1 = dst_fd s \<and> flags s1 = flgs"
  by (auto simp add: copyfile_preamble_def Let_def split: prod.splits option.splits)

lemma copyfile_exit_handle:
  "copyfile_exit (Some s0) s ret w = (ret, Some s, w)"
  by (simp add: copyfile_exit_def)

lemma fcopyfile_descriptors:
  assumes "0 \<le> a" "0 \<le> b" and run: "fcopyfile n a b (Some s) flgs w = Some (r, h, w')"
  shows "\<exists>s'. h = Some s'
           \<and> src_fd s' = (if src_fd s = -2 then a else src_fd s)
           \<and> dst_fd s' = (if dst_fd s = -2 \<and> st_type (sb s') \<in> {S_IFLNK, S_IFDIR, S_IFREG}
                           then b else dst_fd s)
           \<and> (st_type (sb s') \<notin> {S_IFLNK, S_IFDIR, S_IFREG}
                \<longrightarrow> r = -1 \<and> errno w' = Some ENOTSUP)
           \<and> (0 \<le> r \<longrightarrow> dst_fd s' = (if dst_fd s = -2 then b else dst_fd s))"
proof -
  obtain s1 w1 where p: "copyfile_preamble (Some s) flgs w = (0, Some s1, w1)"
    and f: "src_fd s1 = src_fd s" "dst_fd s1 = dst_fd s"
    using preamble_of_handle by blast
  define a' where "a' = (if src_fd s = -2 then a else src_fd s)"
  define b' where "b' = (if dst_fd s = -2 then b else dst_fd s)"
  have e1: "(if src_fd s = -2 then s1\<lparr>src_fd := a\<rparr> else s1) = s1\<lparr>src_fd := a'\<rparr>"
    using f by (simp add: a'_def)
  obtain r1 st w2 where fs: "sys_fstat a' w1 = ((r1, st), w2)"
    by (cases "sys_fstat a' w1") auto
  define sb2 where "sb2 = (case st of Some x \<Rightarrow> x | None \<Rightarrow> sb s1)"
  have k: "\<exists>s'. h = Some s' \<and> src_fd s' = a' \<and> sb s' = sb2
             \<and> (if st_type sb2 \<in> {S_IFLNK, S_IFDIR, S_IFREG} then dst_fd s' = b'
                 else dst_fd s' = dst_fd s \<and> r = -1 \<and> errno w' = Some ENOTSUP)"
    using assms(1,2) run
    by (cases st; cases "dst_fd s = -2")
       (auto simp add: fcopyfile_def p Let_def f e1 fs sb2_def b'_def caller_view_def
          copyfile_exit_handle failing_def split: option.splits prod.splits if_splits)
  have n: "0 \<le> r \<longrightarrow> st_type sb2 \<in> {S_IFLNK, S_IFDIR, S_IFREG}"
    using k by (auto split: if_splits)
  from k obtain s' where h: "h = Some s'" and s': "src_fd s' = a'" "sb s' = sb2"
    and d: "if st_type sb2 \<in> {S_IFLNK, S_IFDIR, S_IFREG} then dst_fd s' = b'
            else dst_fd s' = dst_fd s \<and> r = -1 \<and> errno w' = Some ENOTSUP"
    by blast
  show ?thesis
    using h s' d n by (auto simp add: a'_def b'_def split: if_splits)
qed

lemma fcopyfile_ignores_src:
  assumes "src_fd s \<noteq> -2" "0 \<le> a" "0 \<le> b" "0 \<le> a'"
  shows "fcopyfile n a' b (Some s) flgs w = fcopyfile n a b (Some s) flgs w"
proof -
  obtain s1 w1 where p: "copyfile_preamble (Some s) flgs w = (0, Some s1, w1)"
    and f: "src_fd s1 = src_fd s" "dst_fd s1 = dst_fd s"
    using preamble_of_handle by blast
  show ?thesis
    using assms f by (simp add: fcopyfile_def p Let_def split: prod.splits)
qed

lemma fcopyfile_ignores_dst:
  assumes "dst_fd s \<noteq> -2" "0 \<le> a" "0 \<le> b" "0 \<le> b'"
  shows "fcopyfile n a b' (Some s) flgs w = fcopyfile n a b (Some s) flgs w"
proof -
  obtain s1 w1 where p: "copyfile_preamble (Some s) flgs w = (0, Some s1, w1)"
    and f: "src_fd s1 = src_fd s" "dst_fd s1 = dst_fd s"
    using preamble_of_handle by blast
  show ?thesis
    using assms f by (simp add: fcopyfile_def p Let_def split: prod.splits)
qed

lemma fcopyfile_checks_arguments:
  "a < 0 \<or> b < 0 \<Longrightarrow>
     fcopyfile n a b state flgs w = Some (-1, state, w\<lparr>errno := Some EINVAL\<rparr>)"
  by (simp add: fcopyfile_def failing_def)

text \<open>
  Claim C10. In a copy by descriptors with a handle of the caller's and arguments
  \<open>a\<close> and \<open>b\<close> that are not negative, the handle ends with the source descriptor \<open>a\<close>
  when it held -2 and with the one it held otherwise. It ends with the destination
  descriptor \<open>b\<close> when it held -2 and the type of the source, as the handle records it,
  is one of the three the code copies, whether the copy then succeeds or not; a
  destination descriptor other than -2 is kept, and when the type of the source is
  refused the call returns -1 with \<^verbatim>\<open>ENOTSUP\<close> before it looks at the destination, which
  stays as it was. When the handle holds a descriptor other than -2 on a side, the
  argument of that side has no effect at all: the call returns the same status, handle
  and world for every argument that is not negative. A negative argument is refused
  with \<^verbatim>\<open>EINVAL\<close> whatever the handle holds.
\<close>

theorem fcopyfile_adopts_only_unset:
  assumes "0 \<le> a" "0 \<le> b"
  shows "(\<forall>r h w'. fcopyfile n a b (Some s) flgs w = Some (r, h, w') \<longrightarrow>
            (\<exists>s'. h = Some s'
               \<and> src_fd s' = (if src_fd s = -2 then a else src_fd s)
               \<and> dst_fd s' = (if dst_fd s = -2 \<and> st_type (sb s') \<in> {S_IFLNK, S_IFDIR, S_IFREG}
                               then b else dst_fd s)
               \<and> (st_type (sb s') \<notin> {S_IFLNK, S_IFDIR, S_IFREG}
                    \<longrightarrow> r = -1 \<and> errno w' = Some ENOTSUP)
               \<and> (0 \<le> r \<longrightarrow> dst_fd s' = (if dst_fd s = -2 then b else dst_fd s))))
       \<and> (\<forall>a'. src_fd s \<noteq> -2 \<and> 0 \<le> a' \<longrightarrow>
            fcopyfile n a' b (Some s) flgs w = fcopyfile n a b (Some s) flgs w)
       \<and> (\<forall>b'. dst_fd s \<noteq> -2 \<and> 0 \<le> b' \<longrightarrow>
            fcopyfile n a b' (Some s) flgs w = fcopyfile n a b (Some s) flgs w)
       \<and> (\<forall>a' b'. a' < 0 \<or> b' < 0 \<longrightarrow>
            fcopyfile n a' b' (Some s) flgs w = Some (-1, Some s, w\<lparr>errno := Some EINVAL\<rparr>))"
proof (intro conjI allI impI)
  fix r h w'
  assume "fcopyfile n a b (Some s) flgs w = Some (r, h, w')"
  then show "\<exists>s'. h = Some s'
               \<and> src_fd s' = (if src_fd s = -2 then a else src_fd s)
               \<and> dst_fd s' = (if dst_fd s = -2 \<and> st_type (sb s') \<in> {S_IFLNK, S_IFDIR, S_IFREG}
                               then b else dst_fd s)
               \<and> (st_type (sb s') \<notin> {S_IFLNK, S_IFDIR, S_IFREG}
                    \<longrightarrow> r = -1 \<and> errno w' = Some ENOTSUP)
               \<and> (0 \<le> r \<longrightarrow> dst_fd s' = (if dst_fd s = -2 then b else dst_fd s))"
    by (rule fcopyfile_descriptors [OF assms])
next
  fix a' :: int
  assume "src_fd s \<noteq> -2 \<and> 0 \<le> a'"
  then show "fcopyfile n a' b (Some s) flgs w = fcopyfile n a b (Some s) flgs w"
    using assms by (intro fcopyfile_ignores_src) simp_all
next
  fix b' :: int
  assume "dst_fd s \<noteq> -2 \<and> 0 \<le> b'"
  then show "fcopyfile n a b' (Some s) flgs w = fcopyfile n a b (Some s) flgs w"
    using assms by (intro fcopyfile_ignores_dst) simp_all
next
  fix a' b' :: int
  assume "a' < 0 \<or> b' < 0"
  then show "fcopyfile n a' b' (Some s) flgs w = Some (-1, Some s, w\<lparr>errno := Some EINVAL\<rparr>)"
    by (rule fcopyfile_checks_arguments)
qed

theorem fcopyfile_adopts_only_unset_witness:
  "(case fcopyfile 10 5 7 (Some ex_state) {COPYFILE_DATA} ex_world_open of
      Some (r, h, w') \<Rightarrow>
        r = 0 \<and> map_option src_fd h = Some 0 \<and> map_option dst_fd h = Some 1
          \<and> file_content w' ''b'' = Some ''hello''
    | None \<Rightarrow> False)
   \<and> (case fcopyfile 10 0 1 (Some ex_state_unset) {COPYFILE_DATA} ex_world_open of
      Some (r, h, w') \<Rightarrow>
        r = 0 \<and> map_option src_fd h = Some 0 \<and> map_option dst_fd h = Some 1
          \<and> file_content w' ''b'' = Some ''hello''
    | None \<Rightarrow> False)
   \<and> (case fcopyfile 10 0 7 (Some ex_state_unset) {COPYFILE_DATA} ex_world_open of
      Some (r, h, w') \<Rightarrow>
        r = -1 \<and> map_option src_fd h = Some 0 \<and> map_option dst_fd h = Some 7
          \<and> errno w' = Some EBADF \<and> file_content w' ''b'' = Some ''old content''
    | None \<Rightarrow> False)
   \<and> (case fcopyfile 10 5 7 (Some ex_state_unset) {COPYFILE_DATA} ex_world_open of
      Some (r, h, w') \<Rightarrow>
        r = -1 \<and> map_option src_fd h = Some 5 \<and> map_option dst_fd h = Some (-2)
          \<and> errno w' = Some ENOTSUP
    | None \<Rightarrow> False)"
proof -
  let ?fl = "{COPYFILE_DATA}"
  have z: "(0::int) \<le> 0" "(0::int) \<le> 1" "(0::int) \<le> 5" "(0::int) \<le> 7"
    by simp_all
  have f: "src_fd ex_state \<noteq> -2" "dst_fd ex_state \<noteq> -2"
    by (simp_all add: ex_state_def)
  have u: "src_fd ex_state_unset = -2" "dst_fd ex_state_unset = -2"
    by (simp_all add: ex_state_unset_def)
  have e: "(case fcopyfile 10 0 1 (Some ex_state) ?fl ex_world_open of
      Some (r, h, w') \<Rightarrow>
        r = 0 \<and> map_option src_fd h = Some 0 \<and> map_option dst_fd h = Some 1
          \<and> file_content w' ''b'' = Some ''hello''
    | None \<Rightarrow> False)"
    by code_simp
  have e1: "fcopyfile 10 5 1 (Some ex_state) ?fl ex_world_open
          = fcopyfile 10 0 1 (Some ex_state) ?fl ex_world_open"
    using fcopyfile_adopts_only_unset [OF z(1,2), of 10 ex_state ?fl ex_world_open]
      f z by blast
  have e2: "fcopyfile 10 5 7 (Some ex_state) ?fl ex_world_open
          = fcopyfile 10 5 1 (Some ex_state) ?fl ex_world_open"
    using fcopyfile_adopts_only_unset [OF z(3,2), of 10 ex_state ?fl ex_world_open]
      f z by blast
  have c1: "case fcopyfile 10 5 7 (Some ex_state) ?fl ex_world_open of
      Some (r, h, w') \<Rightarrow>
        r = 0 \<and> map_option src_fd h = Some 0 \<and> map_option dst_fd h = Some 1
          \<and> file_content w' ''b'' = Some ''hello''
    | None \<Rightarrow> False"
    unfolding e2 e1 by (rule e)
  have "case fcopyfile 10 0 1 (Some ex_state_unset) ?fl ex_world_open of
      Some (r, h, w') \<Rightarrow> r = 0 \<and> file_content w' ''b'' = Some ''hello''
    | None \<Rightarrow> False"
    by code_simp
  then obtain h2 w2 where r2: "fcopyfile 10 0 1 (Some ex_state_unset) ?fl ex_world_open
        = Some (0, h2, w2)" and k2: "file_content w2 ''b'' = Some ''hello''"
    by (auto split: option.splits prod.splits)
  have "\<exists>s'. h2 = Some s' \<and> src_fd s' = 0 \<and> dst_fd s' = 1"
    using fcopyfile_adopts_only_unset [OF z(1,2), of 10 ex_state_unset ?fl ex_world_open] r2 u
    by auto
  then have c2: "case fcopyfile 10 0 1 (Some ex_state_unset) ?fl ex_world_open of
      Some (r, h, w') \<Rightarrow>
        r = 0 \<and> map_option src_fd h = Some 0 \<and> map_option dst_fd h = Some 1
          \<and> file_content w' ''b'' = Some ''hello''
    | None \<Rightarrow> False"
    using r2 k2 by auto
  have "case fcopyfile 10 0 7 (Some ex_state_unset) ?fl ex_world_open of
      Some (r, h, w') \<Rightarrow>
        r = -1 \<and> map_option (\<lambda>s. st_type (sb s)) h = Some S_IFREG
          \<and> errno w' = Some EBADF \<and> file_content w' ''b'' = Some ''old content''
    | None \<Rightarrow> False"
    by code_simp
  then obtain h3 w3 where r3: "fcopyfile 10 0 7 (Some ex_state_unset) ?fl ex_world_open
        = Some (-1, h3, w3)" and t3: "map_option (\<lambda>s. st_type (sb s)) h3 = Some S_IFREG"
    and k3: "errno w3 = Some EBADF" "file_content w3 ''b'' = Some ''old content''"
    by (auto split: option.splits prod.splits)
  have "\<exists>s'. h3 = Some s' \<and> src_fd s' = 0 \<and> dst_fd s' = 7"
    using fcopyfile_adopts_only_unset [OF z(1,4), of 10 ex_state_unset ?fl ex_world_open] r3 u t3
    by auto
  then have c3: "case fcopyfile 10 0 7 (Some ex_state_unset) ?fl ex_world_open of
      Some (r, h, w') \<Rightarrow>
        r = -1 \<and> map_option src_fd h = Some 0 \<and> map_option dst_fd h = Some 7
          \<and> errno w' = Some EBADF \<and> file_content w' ''b'' = Some ''old content''
    | None \<Rightarrow> False"
    using r3 k3 by auto
  have "case fcopyfile 10 5 7 (Some ex_state_unset) ?fl ex_world_open of
      Some (r, h, w') \<Rightarrow>
        r = -1 \<and> map_option (\<lambda>s. st_type (sb s)) h = Some S_IFOTHER \<and> errno w' = Some ENOTSUP
    | None \<Rightarrow> False"
    by code_simp
  then obtain h4 w4 where r4: "fcopyfile 10 5 7 (Some ex_state_unset) ?fl ex_world_open
        = Some (-1, h4, w4)" and t4: "map_option (\<lambda>s. st_type (sb s)) h4 = Some S_IFOTHER"
    and k4: "errno w4 = Some ENOTSUP"
    by (auto split: option.splits prod.splits)
  have "\<exists>s'. h4 = Some s' \<and> src_fd s' = 5 \<and> dst_fd s' = -2"
    using fcopyfile_adopts_only_unset [OF z(3,4), of 10 ex_state_unset ?fl ex_world_open] r4 u t4
    by auto
  then have c4: "case fcopyfile 10 5 7 (Some ex_state_unset) ?fl ex_world_open of
      Some (r, h, w') \<Rightarrow>
        r = -1 \<and> map_option src_fd h = Some 5 \<and> map_option dst_fd h = Some (-2)
          \<and> errno w' = Some ENOTSUP
    | None \<Rightarrow> False"
    using r4 k4 by auto
  show ?thesis
    using c1 c2 c3 c4 by (intro conjI)
qed

section \<open>The data transfer\<close>

text \<open>
  Claim C3 does not hold of the code. Every \<^verbatim>\<open>read\<close> of the source fails with \<^verbatim>\<open>EIO\<close>;
  the copy of \<open>a\<close> to a new file \<open>c\<close> returns 0, the status of success, and leaves \<open>c\<close>
  empty. In \<^verbatim>\<open>copyfile_data\<close> the branch for \<^verbatim>\<open>nread < 0\<close> goes to \<^verbatim>\<open>exit\<close> without setting
  \<^verbatim>\<open>ret\<close>, which the branches for a failed \<^verbatim>\<open>write\<close> and a failed \<^verbatim>\<open>ftruncate\<close> do set.
\<close>

theorem read_error_returns_success:
  "(case copyfile 10 (Some ''a'') (Some ''c'') None {COPYFILE_DATA}
           (ex_world\<lparr>script := read_error_script\<rparr>) of
      Some (r, h, w') \<Rightarrow>
        r = 0 \<and> errno w' = Some EIO \<and> file_content w' ''a'' = Some ''hello''
          \<and> file_content w' ''c'' = Some []
    | None \<Rightarrow> False)"
  by code_simp

text \<open>
  Claim C1 does not hold of the code, by the same missing assignment. The first
  \<^verbatim>\<open>read\<close> delivers four bytes and the second fails; the copy of \<open>a\<close> (\<open>hello\<close>) over the
  longer \<open>b\<close> (\<open>old content\<close>) returns 0 and leaves \<open>b\<close> with the four bytes written
  over its old content, neither equal to \<open>a\<close> nor cut to its length.
\<close>

theorem copy_success_with_unequal_content:
  "(case copyfile 10 (Some ''a'') (Some ''b'') None {COPYFILE_DATA}
           (ex_world\<lparr>script := late_read_error_script\<rparr>) of
      Some (r, h, w') \<Rightarrow>
        r = 0 \<and> file_content w' ''a'' = Some ''hello''
          \<and> file_content w' ''b'' = Some ''hellcontent''
    | None \<Rightarrow> False)"
  by code_simp

text \<open>
  Claim C2 does not hold of the code. The first six calls of \<^verbatim>\<open>write\<close> return 0 and
  the seventh takes the bytes: the copy does not stop with a stall, it returns 0 with
  \<open>b\<close> equal to \<open>a\<close>. The counter \<^verbatim>\<open>loop\<close> starts at 0 in every round of the inner loop, so
  \<^verbatim>\<open>++loop > 5\<close> is never true.
\<close>

theorem six_zero_writes_no_stall:
  "(case copyfile 20 (Some ''a'') (Some ''b'') None {COPYFILE_DATA}
           (ex_world\<lparr>script := stalling_script 6\<rparr>) of
      Some (r, h, w') \<Rightarrow>
        r = 0 \<and> errno w' \<noteq> Some EAGAIN
          \<and> take 7 (filter is_write (trace w')) = replicate 7 (EvWrite 1 ''hell'')
          \<and> file_content w' ''b'' = Some ''hello''
    | None \<Rightarrow> False)"
  by code_simp

text \<open>A \<^verbatim>\<open>write\<close> that returns 0 leaves the loop where it was.\<close>

lemma sys_write_stuck:
  assumes st: "\<forall>tr fd bs. script w tr (EvWrite fd bs) = Partial 0"
    and fd: "fd_file w fd = Some (d, f)" and wr: "o_wr d"
  shows "\<exists>w1 f1. sys_write fd bs w = (0, w1) \<and> script w1 = script w
           \<and> fd_file w1 fd = Some (d, f1)"
proof -
  from fd have l: "0 \<le> fd" "nat fd < length (fdtab w)" "fdtab w ! nat fd = Some d"
    and i: "o_ino d < length (files w)"
    by (auto simp add: fd_file_def fd_lookup_def ino_lookup_def split: option.splits if_splits)
  show ?thesis
    using st fd wr l i
    by (simp add: sys_write_def consult_def logged_def update_inode_def fd_file_def fd_lookup_def
          ino_lookup_def)
qed

lemma write_loop_stuck:
  assumes "\<forall>tr fd bs. script w tr (EvWrite fd bs) = Partial 0"
    and "fd_file w (dst_fd s) = Some (d, f)" and "o_wr d" and "0 < left"
  shows "write_loop n s bp ptr left w = None"
  using assms
proof (induction n arbitrary: w f)
  case 0
  then show ?case by simp
next
  case (Suc n)
  obtain w1 f1 where w: "sys_write (dst_fd s) (take left (drop ptr bp)) w = (0, w1)"
    and s: "script w1 = script w" and f: "fd_file w1 (dst_fd s) = Some (d, f1)"
    using sys_write_stuck [OF Suc.prems(1,2,3)] by blast
  have "write_loop n s bp ptr left w1 = None"
    using Suc.IH [of w1 f1] Suc.prems s f by simp
  then show ?case
    using Suc.prems(4) by (simp add: w)
qed

text \<open>And when every \<^verbatim>\<open>write\<close> returns 0, the data transfer never returns, whatever the
  fuel: the inner loop goes round for ever.\<close>

lemma zero_writes_forever_never_return:
  "copyfile_data n ex_state_paths (ex_world_open\<lparr>script := stuck_script\<rparr>) = None"
proof (cases n)
  case 0
  then show ?thesis
    by (simp add: copyfile_data_def sys_fstatfs_def sys_alloc_def consult_def logged_def
          fd_file_def fd_lookup_def ino_lookup_def ex_state_paths_def ex_state_def
          ex_world_open_def ex_world_def stuck_script_def)
next
  case (Suc m)
  let ?w = "ex_world_open\<lparr>script := stuck_script\<rparr>"
  obtain w1 where r: "sys_read 0 4 (logged (EvMalloc 4) (logged (EvFstatfs 0) ?w)) = ((4, ''hell''), w1)"
    and s: "script w1 = stuck_script"
    and f: "fd_file w1 1 = Some (\<lparr>o_ino = 1, o_off = 0, o_rd = False, o_wr = True\<rparr>,
              (new_inode S_IFREG 420)\<lparr>i_data := ''old content''\<rparr>)"
    by (simp add: sys_read_def consult_def logged_def fd_file_def fd_lookup_def ino_lookup_def
          ex_world_open_def ex_world_def stuck_script_def new_inode_def)
  have st: "\<forall>tr fd bs. script w1 tr (EvWrite fd bs) = Partial 0"
    by (simp add: s stuck_script_def)
  have d: "dst_fd ex_state_paths = 1" "src_fd ex_state_paths = 0"
    by (simp_all add: ex_state_paths_def ex_state_def)
  have "write_loop m ex_state_paths ''hell'' 0 4 w1 = None"
    using write_loop_stuck [OF st, of ex_state_paths _ _ 4 m "''hell''" 0] f d by simp
  then have "read_loop (Suc m) ex_state_paths 4 (logged (EvMalloc 4) (logged (EvFstatfs 0) ?w)) = None"
    by (simp add: d r)
  then show ?thesis
    by (simp add: Suc copyfile_data_def sys_fstatfs_def sys_alloc_def consult_def
          fd_file_def fd_lookup_def ino_lookup_def ex_state_paths_def ex_state_def
          ex_world_open_def ex_world_def stuck_script_def logged_def)
qed

section \<open>Facts about the calls\<close>

lemma logged_simps [simp]:
  "names (logged ev w) = names w" "files (logged ev w) = files w"
  "fdtab (logged ev w) = fdtab w" "errno (logged ev w) = errno w"
  "script (logged ev w) = script w" "trace (logged ev w) = trace w @ [ev]"
  "environ (logged ev w) = environ w" "libc_strtol (logged ev w) = libc_strtol w"
  "strtol_einval (logged ev w) = strtol_einval w" "iosize (logged ev w) = iosize w"
  "blksize (logged ev w) = blksize w" "maxpathlen (logged ev w) = maxpathlen w"
  by (simp_all add: logged_def)

lemma failing_simps [simp]:
  "names (failing e w) = names w" "files (failing e w) = files w"
  "fdtab (failing e w) = fdtab w" "errno (failing e w) = Some e"
  "script (failing e w) = script w" "trace (failing e w) = trace w"
  "environ (failing e w) = environ w" "libc_strtol (failing e w) = libc_strtol w"
  "strtol_einval (failing e w) = strtol_einval w" "iosize (failing e w) = iosize w"
  "blksize (failing e w) = blksize w" "maxpathlen (failing e w) = maxpathlen w"
  by (simp_all add: failing_def)

lemma lookups_logged [simp]:
  "path_lookup (logged ev w) = path_lookup w" "ino_lookup (logged ev w) = ino_lookup w"
  "fd_lookup (logged ev w) = fd_lookup w" "fd_file (logged ev w) = fd_file w"
  by (auto simp add: path_lookup_def ino_lookup_def fd_lookup_def fd_file_def fun_eq_iff
        split: option.splits)

lemma lookups_failing [simp]:
  "path_lookup (failing e w) = path_lookup w" "ino_lookup (failing e w) = ino_lookup w"
  "fd_lookup (failing e w) = fd_lookup w" "fd_file (failing e w) = fd_file w"
  by (auto simp add: path_lookup_def ino_lookup_def fd_lookup_def fd_file_def fun_eq_iff
        split: option.splits)

lemma first_free_le: "first_free tab \<le> length tab"
  by (induction tab rule: first_free.induct) simp_all

lemma first_free_free: "first_free tab < length tab \<Longrightarrow> tab ! first_free tab = None"
  by (induction tab rule: first_free.induct) simp_all

lemma install_fd_frame [simp]:
  "names (snd (install_fd d w)) = names w" "files (snd (install_fd d w)) = files w"
  "errno (snd (install_fd d w)) = errno w" "script (snd (install_fd d w)) = script w"
  "trace (snd (install_fd d w)) = trace w"
  by (simp_all add: install_fd_def Let_def)

lemma install_fd_nonneg [simp]:
  "0 \<le> fst (install_fd d w)" "\<not> fst (install_fd d w) < 0"
  by (simp_all add: install_fd_def Let_def)

lemma install_fd_lookup:
  "fd_lookup (snd (install_fd d w)) fd =
     (if fd = fst (install_fd d w) then Some d else fd_lookup w fd)"
  using first_free_le [of "fdtab w"]
  by (auto simp add: install_fd_def Let_def fd_lookup_def nth_append nth_list_update)

text \<open>The calls under a script that makes no call fail.\<close>

lemma consult_nofail:
  assumes "\<forall>tr ev e. script w tr ev \<noteq> Fail e"
  shows "\<exists>oc. consult ev w = (oc, logged ev w) \<and> (\<forall>e. oc \<noteq> Fail e)"
  using assms by (simp add: consult_def)

lemma sys_alloc_nofail:
  assumes "\<forall>tr ev e. script w tr ev \<noteq> Fail e"
  shows "sys_alloc ev w = (True, logged ev w)"
  using consult_nofail [OF assms, of ev]
  by (auto simp add: sys_alloc_def split: outcome.splits)

lemma sys_stat_nofail:
  assumes "\<forall>tr ev e. script w tr ev \<noteq> Fail e" "path_lookup w p = Some (i, f)"
  shows "sys_stat p w = ((0, Some (stat_of w f)), logged (EvStat p) w)"
  using consult_nofail [OF assms(1), of "EvStat p"] assms(2)
  by (auto simp add: sys_stat_def stat_of_def split: outcome.splits)

lemma sys_open_existing_nofail:
  assumes "\<forall>tr ev e. script w tr ev \<noteq> Fail e" "path_lookup w p = Some (i, f)"
  shows "sys_open p fl mode w =
           (if O_CREAT \<in> fl \<and> O_EXCL \<in> fl then (-1, failing EEXIST (logged (EvOpen p fl mode) w))
            else if i_type f = S_IFDIR \<and> O_WRONLY \<in> fl
              then (-1, failing EISDIR (logged (EvOpen p fl mode) w))
            else install_fd \<lparr>o_ino = i, o_off = 0, o_rd = (O_WRONLY \<notin> fl), o_wr = (O_WRONLY \<in> fl)\<rparr>
                   (logged (EvOpen p fl mode) w))"
  using consult_nofail [OF assms(1), of "EvOpen p fl mode"] assms(2)
  by (auto simp add: sys_open_def split: outcome.splits)

lemma sys_mkdir_existing_nofail:
  assumes "\<forall>tr ev e. script w tr ev \<noteq> Fail e" "path_lookup w p = Some (i, f)"
  shows "sys_mkdir p mode w = (-1, failing EEXIST (logged (EvMkdir p mode) w))"
  using consult_nofail [OF assms(1), of "EvMkdir p mode"] assms(2)
  by (auto simp add: sys_mkdir_def split: outcome.splits)

lemma sys_close_open_nofail:
  assumes "\<forall>tr ev e. script w tr ev \<noteq> Fail e" "fd_lookup w fd = Some d"
  shows "sys_close fd w = (0, (logged (EvClose fd) w)\<lparr>fdtab := (fdtab w)[nat fd := None]\<rparr>)"
  using consult_nofail [OF assms(1), of "EvClose fd"] assms(2)
  by (auto simp add: sys_close_def split: outcome.splits)

lemma sys_strtol_frame [simp]:
  "names (snd (sys_strtol e w)) = names w" "files (snd (sys_strtol e w)) = files w"
  "fdtab (snd (sys_strtol e w)) = fdtab w" "script (snd (sys_strtol e w)) = script w"
  by (simp_all add: sys_strtol_def split: strtol_result.splits)

lemma preamble_unset:
  assumes nf: "\<forall>tr ev e. script w tr ev \<noteq> Fail e"
    and unset: "\<forall>s0. state = Some s0 \<longrightarrow> src_fd s0 = -2 \<and> dst_fd s0 = -2"
  shows "\<exists>s1 w1. copyfile_preamble state flgs w = (0, Some s1, w1)
           \<and> src_fd s1 = -2 \<and> dst_fd s1 = -2 \<and> flags s1 = flgs
           \<and> src s1 = (case state of Some s0 \<Rightarrow> src s0 | None \<Rightarrow> None)
           \<and> names w1 = names w \<and> files w1 = files w \<and> script w1 = script w"
proof (cases state)
  case None
  then show ?thesis
    by (auto simp add: copyfile_preamble_def copyfile_state_alloc_def sys_alloc_nofail [OF nf]
          Let_def split_beta split: option.splits)
next
  case (Some s0)
  then show ?thesis
    using unset
    by (auto simp add: copyfile_preamble_def Let_def split_beta split: option.splits)
qed

lemma COPYFILE_SET_FNAME_unset:
  assumes nf: "\<forall>tr ev e. script w tr ev \<noteq> Fail e" and fd: "get_fd N s = -2"
  shows "COPYFILE_SET_FNAME N name s w =
           (False, (case name of None \<Rightarrow> s | Some nm \<Rightarrow> set_name N (Some nm) s),
            (case name of None \<Rightarrow> w | Some nm \<Rightarrow> logged (EvStrdup nm) w))"
  using fd
  by (cases N)
     (auto simp add: COPYFILE_SET_FNAME_def sys_alloc_nofail [OF nf] get_name_def get_fd_def
        set_name_def set_fd_def Let_def split: option.splits)

lemma copyfile_open_src_ok:
  assumes nf: "\<forall>tr ev e. script w tr ev \<noteq> Fail e"
    and fd: "src_fd s = -2"
    and ok: "\<forall>p. src s = Some p \<longrightarrow>
               (\<exists>j g. path_lookup w p = Some (j, g) \<and> (i_type g = S_IFREG \<or> i_type g = S_IFDIR))"
  shows "\<exists>isdir s1 w1. copyfile_open_src s w = (Done, isdir, s1, w1)
           \<and> src s1 = src s \<and> dst s1 = dst s \<and> dst_fd s1 = dst_fd s \<and> flags s1 = flags s
           \<and> names w1 = names w \<and> files w1 = files w \<and> script w1 = script w
           \<and> (src s1 \<noteq> None \<and> 0 \<le> src_fd s1 \<longrightarrow> fd_lookup w1 (src_fd s1) \<noteq> None)"
proof (cases "src s")
  case None
  then show ?thesis
    by (auto simp add: copyfile_open_src_def)
next
  case (Some p)
  with ok obtain j g where g: "path_lookup w p = Some (j, g)"
    and ty: "i_type g = S_IFREG \<or> i_type g = S_IFDIR"
    by blast
  have nf1: "\<forall>tr ev e. script (logged (EvStat p) w) tr ev \<noteq> Fail e"
    using nf by simp
  have g1: "path_lookup (logged (EvStat p) w) p = Some (j, g)"
    using g by simp
  show ?thesis
    using Some fd ty
    by (auto simp add: copyfile_open_src_def sys_stat_nofail [OF nf g] open_src_fd_def
          sys_open_existing_nofail [OF nf1 g1] stat_of_def Let_def install_fd_lookup
          split_beta)
qed

lemma copyfile_open_dst_exists:
  assumes nf: "\<forall>tr ev e. script w tr ev \<noteq> Fail e"
    and d: "dst s = Some d" "dst_fd s = -2"
    and fl: "COPYFILE_EXCL \<in> flags s" "COPYFILE_UNLINK \<notin> flags s"
    and ex: "path_lookup w d = Some (i, f)"
    and fuel: "0 < n"
  shows "\<exists>s1 w1. copyfile_open_dst n isdir s w = Some (Exit (-1), s1, w1)
           \<and> errno w1 = Some EEXIST \<and> names w1 = names w \<and> files w1 = files w
           \<and> fdtab w1 = fdtab w \<and> script w1 = script w
           \<and> src s1 = src s \<and> src_fd s1 = src_fd s \<and> dst_fd s1 < 0"
proof -
  obtain m where n: "n = Suc m"
    using fuel by (cases n) simp_all
  show ?thesis
    using d fl
    by (simp add: copyfile_open_dst_def n Let_def sys_mkdir_existing_nofail [OF nf ex]
          sys_open_existing_nofail [OF nf ex])
qed

lemma copyfile_exit_after_failed_open:
  assumes nf: "\<forall>tr ev e. script w tr ev \<noteq> Fail e"
    and d: "dst_fd s < 0"
    and o: "src s \<noteq> None \<and> 0 \<le> src_fd s \<longrightarrow> fd_lookup w (src_fd s) \<noteq> None"
  shows "\<exists>h w'. copyfile_exit state s r w = (r, h, w')
           \<and> errno w' = errno w \<and> names w' = names w \<and> files w' = files w"
  using d o
  by (auto simp add: copyfile_exit_def copyfile_state_free_def copyfile_close_def Let_def
        sys_close_open_nofail [OF nf] split: prod.splits)

lemma file_content_eq:
  "files w' = files w \<Longrightarrow> names w' = names w \<Longrightarrow> file_content w' p = file_content w p"
  by (auto simp add: file_content_def path_lookup_def ino_lookup_def split: option.splits)

section \<open>Exclusive creation\<close>

text \<open>
  Claim C4, as amended. A copy by paths is called with \<^verbatim>\<open>COPYFILE_EXCL\<close> and without
  \<^verbatim>\<open>COPYFILE_UNLINK\<close>, with a destination path that names an existing file or directory,
  and with no handle or with a handle whose two descriptors are -2. The source path
  (the one given, or else the one stored on the handle) is absent or names an
  existing regular file or directory, and no call is made to fail by the script.
  Then the call returns -1 with \<^verbatim>\<open>errno\<close> equal to \<^verbatim>\<open>EEXIST\<close>, and the names and the content
  of every file are as they were.
\<close>

theorem copyfile_excl_existing:
  assumes excl: "COPYFILE_EXCL \<in> flgs" and nounlink: "COPYFILE_UNLINK \<notin> flgs"
    and dstex: "path_lookup w d = Some (i, f)"
    and unset: "\<forall>s0. state = Some s0 \<longrightarrow> src_fd s0 = -2 \<and> dst_fd s0 = -2"
    and srcok: "\<forall>p. (case src_arg of Some q \<Rightarrow> Some q
                       | None \<Rightarrow> (case state of Some s0 \<Rightarrow> src s0 | None \<Rightarrow> None)) = Some p \<longrightarrow>
                  (\<exists>j g. path_lookup w p = Some (j, g) \<and> (i_type g = S_IFREG \<or> i_type g = S_IFDIR))"
    and nf: "\<forall>tr ev e. script w tr ev \<noteq> Fail e"
    and fuel: "0 < n"
  shows "\<exists>h w'. copyfile n src_arg (Some d) state flgs w = Some (-1, h, w')
           \<and> errno w' = Some EEXIST \<and> files w' = files w \<and> names w' = names w"
proof -
  obtain s1 w1 where p: "copyfile_preamble state flgs w = (0, Some s1, w1)"
    and s1: "src_fd s1 = -2" "dst_fd s1 = -2" "flags s1 = flgs"
      "src s1 = (case state of Some s0 \<Rightarrow> src s0 | None \<Rightarrow> None)"
    and w1: "names w1 = names w" "files w1 = files w" "script w1 = script w"
    using preamble_unset [OF nf unset] by blast
  have nf1: "\<forall>tr ev e. script w1 tr ev \<noteq> Fail e"
    using nf w1 by simp
  define s2 where "s2 = (case src_arg of None \<Rightarrow> s1 | Some nm \<Rightarrow> set_name NAME_src (Some nm) s1)"
  define w2 where "w2 = (case src_arg of None \<Rightarrow> w1 | Some nm \<Rightarrow> logged (EvStrdup nm) w1)"
  have a: "COPYFILE_SET_FNAME NAME_src src_arg s1 w1 = (False, s2, w2)"
    using COPYFILE_SET_FNAME_unset [OF nf1, of NAME_src s1 src_arg] s1
    by (simp add: get_fd_def s2_def w2_def)
  have s2: "src_fd s2 = -2" "dst_fd s2 = -2" "flags s2 = flgs"
    "src s2 = (case src_arg of Some q \<Rightarrow> Some q
               | None \<Rightarrow> (case state of Some s0 \<Rightarrow> src s0 | None \<Rightarrow> None))"
    using s1 by (simp_all add: s2_def set_name_def split: option.splits)
  have w2: "names w2 = names w" "files w2 = files w" "script w2 = script w"
    using w1 by (simp_all add: w2_def split: option.splits)
  have nf2: "\<forall>tr ev e. script w2 tr ev \<noteq> Fail e"
    using nf w2 by simp
  define s3 where "s3 = set_name NAME_dst (Some d) s2"
  define w3 where "w3 = logged (EvStrdup d) w2"
  have b: "COPYFILE_SET_FNAME NAME_dst (Some d) s2 w2 = (False, s3, w3)"
    using COPYFILE_SET_FNAME_unset [OF nf2, of NAME_dst s2 "Some d"] s2
    by (simp add: get_fd_def s3_def w3_def)
  have s3: "src_fd s3 = -2" "dst_fd s3 = -2" "flags s3 = flgs" "src s3 = src s2" "dst s3 = Some d"
    using s2 by (simp_all add: s3_def set_name_def)
  have w3: "names w3 = names w" "files w3 = files w" "script w3 = script w"
    using w2 by (simp_all add: w3_def)
  have nf3: "\<forall>tr ev e. script w3 tr ev \<noteq> Fail e"
    using nf w3 by simp
  have pl3: "path_lookup w3 = path_lookup w"
    using w3 by (auto simp add: path_lookup_def ino_lookup_def fun_eq_iff split: option.splits)
  have ok3: "\<forall>p. src s3 = Some p \<longrightarrow>
               (\<exists>j g. path_lookup w3 p = Some (j, g) \<and> (i_type g = S_IFREG \<or> i_type g = S_IFDIR))"
    using srcok s3 s2 pl3 by simp
  obtain isdir s4 w4 where c: "copyfile_open_src s3 w3 = (Done, isdir, s4, w4)"
    and s4: "src s4 = src s3" "dst s4 = dst s3" "dst_fd s4 = dst_fd s3" "flags s4 = flags s3"
    and w4: "names w4 = names w3" "files w4 = files w3" "script w4 = script w3"
    and o4: "src s4 \<noteq> None \<and> 0 \<le> src_fd s4 \<longrightarrow> fd_lookup w4 (src_fd s4) \<noteq> None"
    using copyfile_open_src_ok [OF nf3 s3(1) ok3] by blast
  have nf4: "\<forall>tr ev e. script w4 tr ev \<noteq> Fail e"
    using nf w3 w4 by simp
  have pl4: "path_lookup w4 d = Some (i, f)"
    using dstex w3 w4 by (auto simp add: path_lookup_def ino_lookup_def split: option.splits)
  obtain s5 w5 where e: "copyfile_open_dst n isdir s4 w4 = Some (Exit (-1), s5, w5)"
    and w5: "errno w5 = Some EEXIST" "names w5 = names w4" "files w5 = files w4"
      "fdtab w5 = fdtab w4" "script w5 = script w4"
    and s5: "src s5 = src s4" "src_fd s5 = src_fd s4" "dst_fd s5 < 0"
    using copyfile_open_dst_exists [OF nf4 _ _ _ _ pl4 fuel, of s4 isdir] s4 s3 excl nounlink
    by auto
  have nf5: "\<forall>tr ev e. script w5 tr ev \<noteq> Fail e"
    using nf w3 w4 w5 by simp
  have o5: "src s5 \<noteq> None \<and> 0 \<le> src_fd s5 \<longrightarrow> fd_lookup w5 (src_fd s5) \<noteq> None"
    using o4 s5 w5 by (auto simp add: fd_lookup_def)
  obtain h w6 where g: "copyfile_exit state s5 (-1) w5 = (-1, h, w6)"
    and w6: "errno w6 = errno w5" "names w6 = names w5" "files w6 = files w5"
    using copyfile_exit_after_failed_open [OF nf5 s5(3) o5] by blast
  have "copyfile n src_arg (Some d) state flgs w = Some (-1, h, w6)"
    by (simp add: copyfile_def p a b copyfile_open_def c e g)
  then show ?thesis
    using w6 w5 w4 w3 by simp
qed

theorem copyfile_excl_existing_witness:
  "\<exists>h w'. copyfile 10 (Some ''a'') (Some ''b'') None {COPYFILE_DATA, COPYFILE_EXCL} ex_world
             = Some (-1, h, w')
      \<and> errno w' = Some EEXIST \<and> file_content w' ''b'' = Some ''old content''"
proof -
  have fl: "COPYFILE_EXCL \<in> {COPYFILE_DATA, COPYFILE_EXCL}"
    "COPYFILE_UNLINK \<notin> {COPYFILE_DATA, COPYFILE_EXCL}"
    by simp_all
  have d: "path_lookup ex_world ''b'' = Some (1, (new_inode S_IFREG 420)\<lparr>i_data := ''old content''\<rparr>)"
    by (simp add: path_lookup_def ino_lookup_def ex_world_def)
  have u: "\<forall>s0. (None :: copyfile_state option) = Some s0 \<longrightarrow> src_fd s0 = -2 \<and> dst_fd s0 = -2"
    by simp
  have s: "\<forall>p. (case Some ''a'' of Some q \<Rightarrow> Some q
                 | None \<Rightarrow> (case (None :: copyfile_state option) of
                              Some s0 \<Rightarrow> src s0 | None \<Rightarrow> None)) = Some p \<longrightarrow>
             (\<exists>j g. path_lookup ex_world p = Some (j, g) \<and> (i_type g = S_IFREG \<or> i_type g = S_IFDIR))"
    by (simp add: path_lookup_def ino_lookup_def ex_world_def new_inode_def)
  have nf: "\<forall>tr ev e. script ex_world tr ev \<noteq> Fail e"
    by (simp add: ex_world_def plain_script_def)
  have n: "0 < (10::nat)"
    by simp
  obtain h w' where r: "copyfile 10 (Some ''a'') (Some ''b'') None {COPYFILE_DATA, COPYFILE_EXCL}
        ex_world = Some (-1, h, w')"
    and e: "errno w' = Some EEXIST" and f: "files w' = files ex_world" "names w' = names ex_world"
    using copyfile_excl_existing [OF fl d u s nf n] by blast
  have "file_content w' ''b'' = file_content ex_world ''b''"
    by (rule file_content_eq [OF f])
  then have "file_content w' ''b'' = Some ''old content''"
    by (simp add: file_content_def path_lookup_def ino_lookup_def ex_world_def)
  with r e show ?thesis
    by blast
qed

text \<open>
  Claim C4 as it was stated fails in three ways. With \<^verbatim>\<open>COPYFILE_UNLINK\<close> also set, the
  existing destination \<open>b\<close> is removed first, and the copy succeeds and leaves \<open>b\<close>
  with the content of \<open>a\<close>. With a source that does not exist, the call fails with
  \<^verbatim>\<open>ENOENT\<close>, not \<^verbatim>\<open>EEXIST\<close>. With a handle that already holds an open destination
  descriptor, the destination is not opened again: the copy succeeds and overwrites
  \<open>b\<close>.
\<close>

theorem copyfile_excl_existing_overwritten:
  "(case copyfile 10 (Some ''a'') (Some ''b'') None
           {COPYFILE_DATA, COPYFILE_EXCL, COPYFILE_UNLINK} ex_world of
      Some (r, h, w') \<Rightarrow> r = 0 \<and> file_content w' ''b'' = Some ''hello''
    | None \<Rightarrow> False)
   \<and> (case copyfile 10 (Some ''nope'') (Some ''b'') None {COPYFILE_DATA, COPYFILE_EXCL} ex_world of
      Some (r, h, w') \<Rightarrow> r = -1 \<and> errno w' = Some ENOENT
    | None \<Rightarrow> False)
   \<and> (case copyfile 10 (Some ''a'') (Some ''b'') (Some ex_state_paths)
           {COPYFILE_DATA, COPYFILE_EXCL} ex_world_open of
      Some (r, h, w') \<Rightarrow> r = 0 \<and> file_content w' ''b'' = Some ''hello''
    | None \<Rightarrow> False)"
  by code_simp

end
